theory Spec2Isabelle
  imports Complex_Main "HOL-Library.Word"
begin

section \<open>GpuPreAgg: shared state, final buffer hand-off and task completion\<close>

text \<open>
  The development follows \<^verbatim>\<open>gpupreagg.c\<close>. Numbers are modelled as the C code has them:
  \<^verbatim>\<open>cl_uint\<close> is a 32-bit word and \<^verbatim>\<open>size_t\<close> a 64-bit word, both with wrap-around;
  a \<^verbatim>\<open>double\<close> is a real number that a double can hold, and every conversion and
  arithmetic operation on doubles rounds its exact result to the nearest double, ties to
  even (see \<open>rd\<close> below). A pointer to a \<^verbatim>\<open>pgstrom_data_store\<close> is an index into the
  list of all data stores allocated so far, \<^verbatim>\<open>NULL\<close> is \<open>None\<close>; a freshly allocated
  store gets the next index, so the index is the generation of the final buffer.
  CUDA handles (device pointers, events, streams) carry no information the host logic
  branches on, apart from being zero or not, and are left out.
\<close>

type_synonym cl_uint = "32 word"
type_synonym size_t = "64 word"
type_synonym pds_ptr = nat

datatype reduction_mode =
    GPUPREAGG_INVALID_REDUCTION
  | GPUPREAGG_NOGROUP_REDUCTION
  | GPUPREAGG_LOCAL_REDUCTION
  | GPUPREAGG_GLOBAL_REDUCTION
  | GPUPREAGG_FINAL_REDUCTION
  | GPUPREAGG_ONLY_TERMINATION

datatype errcode =
    StromError_Success
  | StromError_CpuReCheck
  | StromError_DataStoreNoSpace
  | StromError_Other nat

datatype CUresult =
    CUDA_SUCCESS
  | CUDA_ERROR_OUT_OF_MEMORY
  | CUDA_ERROR_OTHER nat

text \<open>
  What stops the process instead of returning: a failed \<^verbatim>\<open>Assert\<close> (only in a build with
  assertion checking), a dereference of \<^verbatim>\<open>NULL\<close> or of a pointer to nothing, an integer
  division by zero (named by the C expression that divides), and \<^verbatim>\<open>elog(ERROR, ...)\<close>.
\<close>

datatype fault =
    AssertFailure string
  | NullPointer
  | DivisionByZero string
  | ElogError string

text \<open>The part of \<^verbatim>\<open>pgstrom_data_store\<close> the final buffer protocol reads and writes.\<close>

record pgstrom_data_store =
  ntasks_running :: cl_uint
  kds_nrooms :: cl_uint

record GpuPreAggSharedState =
  scan_done :: bool
  ntasks_in_progress :: cl_uint
  pds_final :: "pds_ptr option"
  f_ncols :: cl_uint
  f_key_dist_salt :: cl_uint
  f_nrooms :: cl_uint
  f_nitems :: cl_uint
  f_extra_sz :: cl_uint
  n_tasks_nogrp :: cl_uint
  n_tasks_local :: cl_uint
  n_tasks_global :: cl_uint
  n_tasks_final :: cl_uint
  plan_nrows_per_chunk :: cl_uint
  plan_nrows_in :: size_t
  exec_nrows_in :: size_t
  plan_ngroups :: size_t
  exec_ngroups :: size_t
  plan_extra_sz :: size_t
  exec_extra_sz :: size_t

text \<open>
  \<^verbatim>\<open>GpuPreAggTask\<close>, flattened: \<open>task_\<close> fields are those of the embedded \<^verbatim>\<open>GpuTask_v2\<close>,
  \<open>kern_\<close> fields those of the embedded \<^verbatim>\<open>kern_gpupreagg\<close>. \<open>gpreagg_pds_final\<close> is the
  task's own \<^verbatim>\<open>pds_final\<close> pointer, \<open>m_gpreagg\<close> tells whether the task holds private
  device memory (the pointer is not zero).
\<close>

record GpuPreAggTask =
  task_kerror_errcode :: errcode
  task_cpu_fallback :: bool
  retry_by_nospace :: bool
  m_gpreagg :: bool
  gpreagg_pds_final :: "pds_ptr option"
  kds_head_nrooms :: cl_uint
  kern_reduction_mode :: reduction_mode
  kern_nitems_real :: cl_uint
  kern_hash_size :: cl_uint
  kern_key_dist_salt :: cl_uint
  kern_final_reduction_in_progress :: bool
  kern_kerror_errcode :: errcode
  kern_num_groups :: cl_uint
  kern_varlena_usage :: cl_uint

text \<open>
  The state of the GPU server as far as GpuPreAgg sees it: the shared state of the one
  query, every final buffer allocated so far, and the tasks handed to
  \<^verbatim>\<open>gpuservPushGpuTask\<close>, oldest first.
\<close>

record gpuserv_state =
  sstate :: GpuPreAggSharedState
  pds_heap :: "pgstrom_data_store list"
  pushed_tasks :: "GpuPreAggTask list"

subsection \<open>Detaching from the final buffer\<close>

text \<open>The fields \<^verbatim>\<open>gpupreagg_put_final_buffer\<close> resets when the task lets go of the buffer.\<close>

definition detach_pds_final :: "GpuPreAggTask \<Rightarrow> GpuPreAggTask" where
  "detach_pds_final gpreagg = gpreagg\<lparr>gpreagg_pds_final := None, kern_key_dist_salt := 0\<rparr>"

text \<open>
  \<^verbatim>\<open>gpupreagg_put_final_buffer(gpreagg, release_if_last_task, force_detach_buffer)\<close>.
  The first argument tells whether \<^verbatim>\<open>Assert\<close> is compiled in. The result is the new
  state, the task, and the returned \<^verbatim>\<open>is_terminator\<close>. Of the release of the buffer and
  of its CUDA resources only the reset of the task's own fields is kept.
\<close>

definition gpupreagg_put_final_buffer ::
  "bool \<Rightarrow> gpuserv_state \<Rightarrow> GpuPreAggTask \<Rightarrow> bool \<Rightarrow> bool
     \<Rightarrow> fault + (gpuserv_state \<times> GpuPreAggTask \<times> bool)" where
  "gpupreagg_put_final_buffer cassert st gpreagg release_if_last_task force_detach_buffer =
     (let gpa = sstate st;
          p = gpreagg_pds_final gpreagg;
          gpa1 = (if force_detach_buffer \<and> pds_final gpa = p
                  then gpa\<lparr>pds_final := None\<rparr> else gpa)
      in if cassert \<and> \<not> 0 < ntasks_in_progress gpa1
         then Inl (AssertFailure ''gpa_sstate->ntasks_in_progress > 0'')
         else
           let gpa2 = gpa1\<lparr>ntasks_in_progress := ntasks_in_progress gpa1 - 1\<rparr>;
               term1 = (ntasks_in_progress gpa2 = 0 \<and> scan_done gpa2)
           in case p of
                None \<Rightarrow> Inl NullPointer
              | Some a \<Rightarrow>
                  if \<not> a < length (pds_heap st) then Inl NullPointer
                  else
                    let pds = pds_heap st ! a
                    in if cassert \<and> \<not> 0 < ntasks_running pds
                       then Inl (AssertFailure ''pds_final->ntasks_running > 0'')
                       else
                         let pds' = pds\<lparr>ntasks_running := ntasks_running pds - 1\<rparr>;
                             term2 = (ntasks_running pds' = 0 \<and> pds_final gpa2 \<noteq> p);
                             is_terminator = (term1 \<or> term2);
                             st' = st\<lparr>sstate := gpa2, pds_heap := (pds_heap st)[a := pds']\<rparr>
                         in if is_terminator
                            then (if release_if_last_task
                                  then Inr (st', detach_pds_final gpreagg, True)
                                  else Inr (st', gpreagg, True))
                            else Inr (st', detach_pds_final gpreagg, False))"

subsection \<open>What the file takes from the rest of PG-Strom\<close>

text \<open>
  \<^verbatim>\<open>devBaselineMaxThreadsPerBlock\<close>, \<^verbatim>\<open>pgstrom_chunk_size()\<close>, and the macros
  \<^verbatim>\<open>KDS_CALCULATE_HEAD_LENGTH\<close> and \<^verbatim>\<open>STROMALIGN\<close> are declared outside \<^verbatim>\<open>gpupreagg.c\<close>,
  and \<^verbatim>\<open>log\<close> is the C library's: they are parameters here. \<open>libm_log\<close> maps a double to
  the double that \<^verbatim>\<open>log\<close> returns for it. \<^verbatim>\<open>sizeof(Datum) + sizeof(char)\<close> is 9.
\<close>

record gpu_env =
  devBaselineMaxThreadsPerBlock :: cl_uint
  pgstrom_chunk_size :: size_t
  KDS_CALCULATE_HEAD_LENGTH :: "cl_uint \<Rightarrow> size_t"
  STROMALIGN :: "size_t \<Rightarrow> size_t"
  libm_log :: "real \<Rightarrow> real"

subsection \<open>Doubles\<close>

text \<open>Rounding a real number to an integer, to the nearest one and to the even one on a tie.\<close>

definition rne :: "real \<Rightarrow> int" where
  "rne m = (let f = \<lfloor>m\<rfloor>; d = m - of_int f
            in if d < 1 / 2 then f
               else if 1 / 2 < d then f + 1
               else if even f then f else f + 1)"

text \<open>The binary exponent of a real number other than zero.\<close>

definition dexp :: "real \<Rightarrow> int" where
  "dexp x = \<lfloor>log 2 \<bar>x\<bar>\<rfloor>"

text \<open>
  \<open>rd x\<close> is the double nearest to \<open>x\<close>: \<open>x\<close> is scaled by a power of two so that its
  magnitude lies between \<open>2^52\<close> and \<open>2^53\<close>, rounded to an integer, and scaled back. This
  is what an IEEE 754 conversion or operation in binary64 returns in the default rounding
  mode, as long as the magnitude of the result is in the range of normal doubles, between
  \<open>2^-1022\<close> and \<open>2^1024\<close>; every quotient, product and sum below is zero or in that range,
  since it is formed from integers of at most 64 bits, 2.5, 30, 200 and logarithms of such
  integers. The operations are separate: the code is taken to be compiled without fused
  multiply-add.
\<close>

definition rd :: "real \<Rightarrow> real" where
  "rd x = (if x = 0 then 0
           else let ulp = 2 powr of_int (dexp x - 52)
                in of_int (rne (x / ulp)) * ulp)"

text \<open>
  The C conversion \<^verbatim>\<open>(size_t) d\<close> of a double that is not negative: truncation. A value
  of \<open>2^64\<close> or more, for which C defines nothing, wraps around here.
\<close>

definition double_to_size_t :: "real \<Rightarrow> size_t" where
  "double_to_size_t d = word_of_nat (nat \<lfloor>d\<rfloor>)"

subsection \<open>Task construction and dispatch\<close>

text \<open>
  \<^verbatim>\<open>gpupreagg_create_task\<close>: \<open>num_group_keys\<close> is \<^verbatim>\<open>gpas->num_group_keys\<close>, \<open>block\<close> tells
  whether the source chunk has \<^verbatim>\<open>KDS_FORMAT_BLOCK\<close>, \<open>nitems\<close> is \<^verbatim>\<open>pds_src->kds.nitems\<close>.
  The task is zeroed by \<^verbatim>\<open>memset\<close> before the fields are set.
\<close>

definition gpupreagg_create_task :: "int \<Rightarrow> bool \<Rightarrow> cl_uint \<Rightarrow> cl_uint \<Rightarrow> GpuPreAggTask" where
  "gpupreagg_create_task num_group_keys block nrows_per_block nitems =
     (let nitems_real = (if block then nitems * nrows_per_block else nitems)
      in \<lparr>task_kerror_errcode = StromError_Success,
          task_cpu_fallback = False,
          retry_by_nospace = False,
          m_gpreagg = False,
          gpreagg_pds_final = None,
          kds_head_nrooms = nitems_real,
          kern_reduction_mode = (if num_group_keys = 0
                                 then GPUPREAGG_NOGROUP_REDUCTION
                                 else GPUPREAGG_INVALID_REDUCTION),
          kern_nitems_real = nitems_real,
          kern_hash_size = nitems_real,
          kern_key_dist_salt = 0,
          kern_final_reduction_in_progress = False,
          kern_kerror_errcode = StromError_Success,
          kern_num_groups = 0,
          kern_varlena_usage = 0\<rparr>)"

text \<open>
  \<^verbatim>\<open>gpupreagg_next_task\<close>, once a chunk has been loaded: the task is built and counted as
  in progress; \<open>is_last_task\<close> tells that no further chunk is expected.
\<close>

definition gpupreagg_next_task ::
  "bool \<Rightarrow> gpuserv_state \<Rightarrow> int \<Rightarrow> bool \<Rightarrow> cl_uint \<Rightarrow> cl_uint \<Rightarrow> bool
     \<Rightarrow> fault + (gpuserv_state \<times> GpuPreAggTask)" where
  "gpupreagg_next_task cassert st num_group_keys block nrows_per_block nitems is_last_task =
     (let gtask = gpupreagg_create_task num_group_keys block nrows_per_block nitems;
          gpa = sstate st;
          gpa1 = gpa\<lparr>ntasks_in_progress := ntasks_in_progress gpa + 1\<rparr>
      in if is_last_task
         then (if cassert \<and> scan_done gpa1
               then Inl (AssertFailure ''!gpa_sstate->scan_done'')
               else Inr (st\<lparr>sstate := gpa1\<lparr>scan_done := True\<rparr>\<rparr>, gtask))
         else Inr (st\<lparr>sstate := gpa1\<rparr>, gtask))"

subsection \<open>Sizing the final buffer\<close>

text \<open>
  The row count at which \<^verbatim>\<open>adjust_final_buffer_size\<close> evaluates the growth of the number
  of groups, \<^verbatim>\<open>curr_nrows_in\<close>.
\<close>

definition curr_nrows_in :: "GpuPreAggSharedState \<Rightarrow> size_t" where
  "curr_nrows_in gpa =
     (if exec_nrows_in gpa < plan_nrows_in gpa div 2
      then plan_nrows_in gpa
      else 2 * exec_nrows_in gpa)"

text \<open>
  The first block of \<^verbatim>\<open>adjust_final_buffer_size\<close>: the number of groups to provide for,
  \<^verbatim>\<open>curr_ngroups\<close>. The integers are converted to double, the quotient and the product
  are rounded, and the product is cut to an integer.
\<close>

definition curr_ngroups :: "gpu_env \<Rightarrow> GpuPreAggSharedState \<Rightarrow> size_t" where
  "curr_ngroups env gpa =
     (if exec_nrows_in gpa < 1000 then plan_ngroups gpa
      else
        let alpha = rd (rd (real (unat (exec_ngroups gpa)))
                        / libm_log env (rd (real (unat (exec_nrows_in gpa)))))
        in double_to_size_t
             (rd (alpha * libm_log env (rd (real (unat (curr_nrows_in gpa)))))))"

text \<open>
  \<^verbatim>\<open>adjust_final_buffer_size\<close>; the result is
  \<^verbatim>\<open>(*p_key_dist_salt, *p_nrooms, *p_extra_sz, *p_hashsize)\<close>.
\<close>

definition adjust_final_buffer_size ::
  "gpu_env \<Rightarrow> GpuPreAggSharedState \<Rightarrow> fault + (size_t \<times> size_t \<times> size_t \<times> size_t)" where
  "adjust_final_buffer_size env gpa =
     (let ngroups = curr_ngroups env gpa;
          extra_sz = (if exec_ngroups gpa < 100 then plan_extra_sz gpa
                      else max ((exec_extra_sz gpa + exec_ngroups gpa - 1) div exec_ngroups gpa)
                               (plan_extra_sz gpa))
      in if ngroups < ucast (devBaselineMaxThreadsPerBlock env div 5) \<and> 5 * ngroups = 0
         then Inl (DivisionByZero ''devBaselineMaxThreadsPerBlock / (5 * curr_ngroups)'')
         else
           let salt = (if ngroups < ucast (devBaselineMaxThreadsPerBlock env div 5)
                       then max (ucast (devBaselineMaxThreadsPerBlock env) div (5 * ngroups)) 1
                       else 1);
               nrooms = double_to_size_t
                          (rd (rd (rd (real (unat (ngroups * salt))) * 2.5) + 200));
               head_sz = KDS_CALCULATE_HEAD_LENGTH env (f_ncols gpa);
               unit_sz = STROMALIGN env ((8 + 1) * ucast (f_ncols gpa)) + STROMALIGN env extra_sz;
               len = head_sz + unit_sz * nrooms;
               chunk = pgstrom_chunk_size env
           in if (len < chunk div 2 \<or> len < chunk \<or> len < 3 * chunk) \<and> unit_sz = 0
              then Inl (DivisionByZero ''(n * pgstrom_chunk_size() - head_sz) / unit_sz'')
              else
                let nrooms' = (if len < chunk div 2 then (chunk - head_sz) div unit_sz
                               else if len < chunk then (2 * chunk - head_sz) div unit_sz
                               else if len < 3 * chunk then (3 * chunk - head_sz) div unit_sz
                               else nrooms)
                in Inr (salt, nrooms', extra_sz, 2 * nrooms'))"

subsection \<open>Attaching to the final buffer\<close>

text \<open>
  \<^verbatim>\<open>gpupreagg_alloc_final_buffer\<close>; \<open>rc\<close> is what \<^verbatim>\<open>gpuMemAlloc_v2\<close> answers. The other CUDA
  calls of the function are taken to succeed. \<^verbatim>\<open>PDS_duplicate_slot\<close> is defined outside
  \<^verbatim>\<open>gpupreagg.c\<close>: it is taken to return a new store of the requested \<^verbatim>\<open>nrooms\<close> that no
  task runs on yet. A store released again on out-of-memory leaves no trace.
\<close>

definition gpupreagg_alloc_final_buffer ::
  "gpu_env \<Rightarrow> gpuserv_state \<Rightarrow> CUresult \<Rightarrow> fault + (gpuserv_state \<times> bool)" where
  "gpupreagg_alloc_final_buffer env st rc =
     (case adjust_final_buffer_size env (sstate st) of
        Inl f \<Rightarrow> Inl f
      | Inr (key_dist_salt, nrooms, extra_sz, hashsize) \<Rightarrow>
          let pds = \<lparr>ntasks_running = 0, kds_nrooms = ucast nrooms\<rparr>
          in (case rc of
               CUDA_ERROR_OUT_OF_MEMORY \<Rightarrow> Inr (st, False)
             | CUDA_ERROR_OTHER n \<Rightarrow> Inl (ElogError ''failed on gpuMemAlloc'')
             | CUDA_SUCCESS \<Rightarrow>
                 Inr (st\<lparr>sstate := (sstate st)
                            \<lparr>pds_final := Some (length (pds_heap st)),
                             f_key_dist_salt := ucast key_dist_salt,
                             f_nrooms := kds_nrooms pds,
                             f_nitems := 0,
                             f_extra_sz := 0\<rparr>,
                         pds_heap := pds_heap st @ [pds]\<rparr>, True)))"

text \<open>
  The decision for the reduction mode at the head of \<^verbatim>\<open>gpupreagg_get_final_buffer\<close>, taken
  when the mode is \<^verbatim>\<open>GPUPREAGG_INVALID_REDUCTION\<close>. The two 64-bit counts are rounded when
  they are converted to double; a 32-bit integer is a double as it is.
\<close>

definition decide_reduction_mode ::
  "gpu_env \<Rightarrow> GpuPreAggSharedState \<Rightarrow> GpuPreAggTask \<Rightarrow> reduction_mode" where
  "decide_reduction_mode env gpa gpreagg =
     (let plan_ngroups_d = rd (real (unat (plan_ngroups gpa)));
          exec_ngroups_d = rd (real (unat (exec_ngroups gpa)));
          num_tasks = real (unat (n_tasks_nogrp gpa + n_tasks_local gpa
                                  + n_tasks_global gpa + n_tasks_final gpa));
          exec_ratio = rd (min num_tasks 30 / 30);
          real_ngroups = rd (rd (plan_ngroups_d * rd (1 - exec_ratio))
                             + rd (exec_ngroups_d * exec_ratio))
      in if real_ngroups < real (unat (devBaselineMaxThreadsPerBlock env div 4))
         then GPUPREAGG_LOCAL_REDUCTION
         else if real_ngroups < real (unat (kern_nitems_real gpreagg div 4))
         then GPUPREAGG_GLOBAL_REDUCTION
         else GPUPREAGG_FINAL_REDUCTION)"

text \<open>
  \<^verbatim>\<open>gpupreagg_get_final_buffer\<close>; \<open>rc\<close> is the answer of \<^verbatim>\<open>gpuMemAlloc_v2\<close> in case a buffer
  has to be allocated. The result is the state, the task and the returned flag.
\<close>

definition gpupreagg_get_final_buffer ::
  "bool \<Rightarrow> gpu_env \<Rightarrow> gpuserv_state \<Rightarrow> GpuPreAggTask \<Rightarrow> CUresult
     \<Rightarrow> fault + (gpuserv_state \<times> GpuPreAggTask \<times> bool)" where
  "gpupreagg_get_final_buffer cassert env st gpreagg rc =
     (if kern_reduction_mode gpreagg \<noteq> GPUPREAGG_INVALID_REDUCTION
         \<and> cassert \<and> kern_reduction_mode gpreagg \<noteq> GPUPREAGG_NOGROUP_REDUCTION
      then Inl (AssertFailure ''gpreagg->kern.reduction_mode==GPUPREAGG_NOGROUP_REDUCTION'')
      else
        let gpreagg1 = (if kern_reduction_mode gpreagg = GPUPREAGG_INVALID_REDUCTION
                        then gpreagg\<lparr>kern_reduction_mode :=
                                       decide_reduction_mode env (sstate st) gpreagg\<rparr>
                        else gpreagg);
            attach = (\<lambda>st1. case pds_final (sstate st1) of
                        None \<Rightarrow> Inl NullPointer
                      | Some a \<Rightarrow>
                          if \<not> a < length (pds_heap st1) then Inl NullPointer
                          else
                            let pds = pds_heap st1 ! a
                            in Inr (st1\<lparr>pds_heap := (pds_heap st1)
                                         [a := pds\<lparr>ntasks_running := ntasks_running pds + 1\<rparr>]\<rparr>,
                                    gpreagg1\<lparr>gpreagg_pds_final := Some a,
                                             kern_key_dist_salt := f_key_dist_salt (sstate st1)\<rparr>,
                                    True))
        in if pds_final (sstate st) = None
           then (case gpupreagg_alloc_final_buffer env st rc of
                   Inl f \<Rightarrow> Inl f
                 | Inr (st1, retval) \<Rightarrow>
                     if \<not> retval then Inr (st1, gpreagg1, False) else attach st1)
           else attach st)"

subsection \<open>Running a task\<close>

definition gpupreagg_cleanup_cuda_resources :: "GpuPreAggTask \<Rightarrow> GpuPreAggTask" where
  "gpupreagg_cleanup_cuda_resources gpreagg = gpreagg\<lparr>m_gpreagg := False\<rparr>"

text \<open>
  \<^verbatim>\<open>gpupreagg_push_terminator_task\<close>: the clone is zeroed, takes over the final buffer of
  the old task and is pushed with mode \<^verbatim>\<open>GPUPREAGG_ONLY_TERMINATION\<close>.
\<close>

definition gpupreagg_push_terminator_task ::
  "gpuserv_state \<Rightarrow> GpuPreAggTask \<Rightarrow> gpuserv_state \<times> GpuPreAggTask" where
  "gpupreagg_push_terminator_task st gpreagg_old =
     (let gpreagg_new =
            \<lparr>task_kerror_errcode = StromError_Success,
             task_cpu_fallback = False,
             retry_by_nospace = False,
             m_gpreagg = False,
             gpreagg_pds_final = gpreagg_pds_final gpreagg_old,
             kds_head_nrooms = 0,
             kern_reduction_mode = GPUPREAGG_ONLY_TERMINATION,
             kern_nitems_real = 0,
             kern_hash_size = 0,
             kern_key_dist_salt = 0,
             kern_final_reduction_in_progress = False,
             kern_kerror_errcode = StromError_Success,
             kern_num_groups = 0,
             kern_varlena_usage = 0\<rparr>
      in (st\<lparr>pushed_tasks := pushed_tasks st @ [gpreagg_new]\<rparr>,
          gpreagg_old\<lparr>gpreagg_pds_final := None\<rparr>))"

text \<open>
  \<^verbatim>\<open>gpupreagg_process_reduction_task\<close> up to the launch of the kernel; \<open>rc_final\<close> and
  \<open>rc_own\<close> are the answers of \<^verbatim>\<open>gpuMemAlloc_v2\<close> for the final buffer and for the task's
  own device memory. The result carries the return value: 0 launched, 1 retry later.
  The other CUDA calls are taken to succeed, and the I/O mapped source buffer of
  NVMe-Strom is left out. An \<^verbatim>\<open>elog(ERROR)\<close> ends the run: the \<^verbatim>\<open>PG_CATCH\<close> block of
  \<^verbatim>\<open>gpupreagg_process_task\<close>, which detaches the final buffer before it throws the error
  again, has no counterpart here.
\<close>

definition gpupreagg_process_reduction_task ::
  "bool \<Rightarrow> gpu_env \<Rightarrow> gpuserv_state \<Rightarrow> GpuPreAggTask \<Rightarrow> CUresult \<Rightarrow> CUresult
     \<Rightarrow> fault + (gpuserv_state \<times> GpuPreAggTask \<times> int)" where
  "gpupreagg_process_reduction_task cassert env st gpreagg rc_final rc_own =
     (case gpupreagg_get_final_buffer cassert env st gpreagg rc_final of
        Inl f \<Rightarrow> Inl f
      | Inr (st1, g1, ok) \<Rightarrow>
          if \<not> ok then Inr (st1, g1, 1)
          else if \<not> m_gpreagg g1 \<and> rc_own = CUDA_ERROR_OUT_OF_MEMORY
          then (let g2 = gpupreagg_cleanup_cuda_resources g1
                in case gpupreagg_put_final_buffer cassert st1 g2 False False of
                     Inl f \<Rightarrow> Inl f
                   | Inr (st2, g3, is_terminator) \<Rightarrow>
                       let (st3, g4) = (if is_terminator
                                        then gpupreagg_push_terminator_task st2 g3
                                        else (st2, g3))
                       in if cassert \<and> retry_by_nospace g4
                          then Inl (AssertFailure ''!gpreagg->retry_by_nospace'')
                          else Inr (st3, g4, 1))
          else if \<not> m_gpreagg g1 \<and> rc_own \<noteq> CUDA_SUCCESS
          then Inl (ElogError ''failed on gpuMemAlloc'')
          else if m_gpreagg g1 \<and> cassert \<and> \<not> retry_by_nospace g1
          then Inl (AssertFailure ''gpreagg->retry_by_nospace'')
          else
            let g2 = g1\<lparr>m_gpreagg := True\<rparr>;
                gpa = sstate st1
            in (case kern_reduction_mode g2 of
                 GPUPREAGG_NOGROUP_REDUCTION \<Rightarrow>
                   Inr (st1\<lparr>sstate := gpa\<lparr>n_tasks_nogrp := n_tasks_nogrp gpa + 1\<rparr>\<rparr>, g2, 0)
               | GPUPREAGG_LOCAL_REDUCTION \<Rightarrow>
                   Inr (st1\<lparr>sstate := gpa\<lparr>n_tasks_local := n_tasks_local gpa + 1\<rparr>\<rparr>, g2, 0)
               | GPUPREAGG_GLOBAL_REDUCTION \<Rightarrow>
                   Inr (st1\<lparr>sstate := gpa\<lparr>n_tasks_global := n_tasks_global gpa + 1\<rparr>\<rparr>, g2, 0)
               | GPUPREAGG_FINAL_REDUCTION \<Rightarrow>
                   Inr (st1\<lparr>sstate := gpa\<lparr>n_tasks_final := n_tasks_final gpa + 1\<rparr>\<rparr>, g2, 0)
               | _ \<Rightarrow> Inl (ElogError ''Bug? unexpected reduction mode'')))"

text \<open>
  \<^verbatim>\<open>gpupreagg_respond_task\<close>: the callback once the device is done with the task; \<open>status\<close>
  is the status of the CUDA stream. The kernel's answer is in the \<open>kern_\<close> fields. A CUDA
  error code stored as the task's error code is none of the three codes that
  \<^verbatim>\<open>gpupreagg_complete_task\<close> tells apart.
\<close>

definition gpupreagg_respond_task ::
  "gpuserv_state \<Rightarrow> GpuPreAggTask \<Rightarrow> CUresult \<Rightarrow> gpuserv_state \<times> GpuPreAggTask" where
  "gpupreagg_respond_task st gpreagg status =
     (case status of
        CUDA_SUCCESS \<Rightarrow>
          let g1 = gpreagg\<lparr>task_kerror_errcode := kern_kerror_errcode gpreagg\<rparr>
          in if task_kerror_errcode g1 = StromError_Success
             then
               let gpa = sstate st;
                   gpa1 = gpa\<lparr>f_nitems := f_nitems gpa + kern_num_groups g1,
                              f_extra_sz := f_extra_sz gpa + kern_varlena_usage g1,
                              exec_nrows_in := exec_nrows_in gpa + ucast (kern_nitems_real g1)\<rparr>;
                   gpa2 = gpa1\<lparr>exec_ngroups := max (exec_ngroups gpa1) (ucast (f_nitems gpa1)),
                               exec_extra_sz := max (exec_extra_sz gpa1) (ucast (f_extra_sz gpa1))\<rparr>
               in (st\<lparr>sstate := gpa2\<rparr>, g1)
             else (st, g1)
      | CUDA_ERROR_OUT_OF_MEMORY \<Rightarrow> (st, gpreagg\<lparr>task_kerror_errcode := StromError_Other 2\<rparr>)
      | CUDA_ERROR_OTHER n \<Rightarrow> (st, gpreagg\<lparr>task_kerror_errcode := StromError_Other n\<rparr>))"

text \<open>
  \<^verbatim>\<open>gpupreagg_complete_task\<close>. The returned value tells the GPU server what to do with
  the task: 0 hand it back to the backend, 1 run it again, -1 drop it.
\<close>

definition gpupreagg_complete_task ::
  "bool \<Rightarrow> gpuserv_state \<Rightarrow> GpuPreAggTask \<Rightarrow> fault + (gpuserv_state \<times> GpuPreAggTask \<times> int)" where
  "gpupreagg_complete_task cassert st gpreagg =
     (if kern_reduction_mode gpreagg = GPUPREAGG_ONLY_TERMINATION
      then
        (let done = Inr (st, gpupreagg_cleanup_cuda_resources
                               (gpreagg\<lparr>kern_key_dist_salt := 0\<rparr>), 0)
         in if cassert
            then (case gpreagg_pds_final gpreagg of
                    None \<Rightarrow> Inl NullPointer
                  | Some a \<Rightarrow>
                      if \<not> a < length (pds_heap st) then Inl NullPointer
                      else if ntasks_running (pds_heap st ! a) \<noteq> 0
                      then Inl (AssertFailure ''pds_final->ntasks_running == 0'')
                      else done)
            else done)
      else if task_kerror_errcode gpreagg = StromError_Success
      then
        (case gpupreagg_put_final_buffer cassert st
                (gpupreagg_cleanup_cuda_resources gpreagg) False False of
           Inl f \<Rightarrow> Inl f
         | Inr (st1, g1, is_terminator) \<Rightarrow>
             if \<not> is_terminator then Inr (st1, g1, -1)
             else Inr (st1, g1\<lparr>kern_reduction_mode := GPUPREAGG_ONLY_TERMINATION\<rparr>, 1))
      else if task_kerror_errcode gpreagg = StromError_CpuReCheck
      then
        (let g0 = gpupreagg_cleanup_cuda_resources gpreagg
         in if kern_final_reduction_in_progress g0
            then (case gpupreagg_put_final_buffer cassert st g0 True False of
                    Inl f \<Rightarrow> Inl f
                  | Inr (st1, g1, is_terminator) \<Rightarrow> Inr (st1, g1, 0))
            else (case gpupreagg_put_final_buffer cassert st g0 False False of
                    Inl f \<Rightarrow> Inl f
                  | Inr (st1, g1, is_terminator) \<Rightarrow>
                      let (st2, g2) = (if is_terminator
                                       then gpupreagg_push_terminator_task st1 g1
                                       else (st1, g1))
                      in Inr (st2, g2\<lparr>task_kerror_errcode := StromError_Success,
                                      task_cpu_fallback := True\<rparr>, 0)))
      else if task_kerror_errcode gpreagg = StromError_DataStoreNoSpace
      then
        (if kern_final_reduction_in_progress gpreagg
         then (case gpupreagg_put_final_buffer cassert st gpreagg False True of
                 Inl f \<Rightarrow> Inl f
               | Inr (st1, g1, is_terminator) \<Rightarrow>
                   let (st2, g2) = (if is_terminator
                                    then gpupreagg_push_terminator_task st1 g1
                                    else (st1, g1))
                   in Inr (st2, g2\<lparr>retry_by_nospace := True\<rparr>, 1))
         else (let nitems_real = kern_nitems_real gpreagg;
                   g0 = gpupreagg_cleanup_cuda_resources gpreagg
               in case gpupreagg_put_final_buffer cassert st g0 False False of
                    Inl f \<Rightarrow> Inl f
                  | Inr (st1, g1, is_terminator) \<Rightarrow>
                      let (st2, g2) = (if is_terminator
                                       then gpupreagg_push_terminator_task st1 g1
                                       else (st1, g1));
                          g3 = g2\<lparr>kern_hash_size := max (kern_hash_size g2) nitems_real,
                                  kds_head_nrooms := nitems_real\<rparr>;
                          g4 = (if kern_reduction_mode g3 \<noteq> GPUPREAGG_NOGROUP_REDUCTION
                                then g3\<lparr>kern_reduction_mode := GPUPREAGG_INVALID_REDUCTION\<rparr>
                                else g3)
                      in Inr (st2, g4, 1)))
      else
        (case gpupreagg_put_final_buffer cassert st
                (gpupreagg_cleanup_cuda_resources gpreagg) True False of
           Inl f \<Rightarrow> Inl f
         | Inr (st1, g1, is_terminator) \<Rightarrow> Inr (st1, g1, 0)))"

text \<open>
  \<^verbatim>\<open>gpupreagg_switch_task\<close>, run by the backend on a task handed back to it: a task that
  still carries an error code fails the query.
\<close>

definition gpupreagg_switch_task :: "GpuPreAggTask \<Rightarrow> fault + unit" where
  "gpupreagg_switch_task gtask =
     (if task_kerror_errcode gtask \<noteq> StromError_Success
      then Inl (ElogError ''GPU kernel error'') else Inr ())"

subsection \<open>EXPLAIN\<close>


subsection \<open>Concrete data\<close>

text \<open>
  A device with 1024 threads per block, a chunk size of 16MB, alignment to 16 bytes with
  a header of 64 bytes and 16 bytes per column, and a \<^verbatim>\<open>log\<close> that returns the double
  nearest to the logarithm.
\<close>

definition STROMALIGN16 :: "size_t \<Rightarrow> size_t" where
  "STROMALIGN16 x = ((x + 15) div 16) * 16"

definition env0 :: gpu_env where
  "env0 = \<lparr>devBaselineMaxThreadsPerBlock = 1024,
            pgstrom_chunk_size = 16777216,
            KDS_CALCULATE_HEAD_LENGTH = (\<lambda>ncols. STROMALIGN16 (64 + 16 * ucast ncols)),
            STROMALIGN = STROMALIGN16,
            libm_log = (\<lambda>x. rd (ln x))\<rparr>"

text \<open>
  The shared state as \<^verbatim>\<open>create_gpupreagg_shared_state\<close> leaves it, for a plan with two
  columns in the final buffer, 2000 input rows and 1000 groups.
\<close>

definition gpa0 :: GpuPreAggSharedState where
  "gpa0 = \<lparr>scan_done = False, ntasks_in_progress = 0, pds_final = None,
            f_ncols = 2, f_key_dist_salt = 1, f_nrooms = 0, f_nitems = 0, f_extra_sz = 0,
            n_tasks_nogrp = 0, n_tasks_local = 0, n_tasks_global = 0, n_tasks_final = 0,
            plan_nrows_per_chunk = 0, plan_nrows_in = 2000, exec_nrows_in = 0,
            plan_ngroups = 1000, exec_ngroups = 0, plan_extra_sz = 0, exec_extra_sz = 0\<rparr>"

definition s0 :: gpuserv_state where
  "s0 = \<lparr>sstate = gpa0, pds_heap = [], pushed_tasks = []\<rparr>"

text \<open>A state with one final buffer that one task runs on, and that task.\<close>

definition s_one :: gpuserv_state where
  "s_one = \<lparr>sstate = gpa0\<lparr>scan_done := True, ntasks_in_progress := 1, pds_final := Some 0\<rparr>,
             pds_heap = [\<lparr>ntasks_running = 1, kds_nrooms = 524285\<rparr>],
             pushed_tasks = []\<rparr>"

definition t_one :: GpuPreAggTask where
  "t_one = (gpupreagg_create_task 1 False 0 2000)
             \<lparr>gpreagg_pds_final := Some 0, kern_key_dist_salt := 1,
              kern_reduction_mode := GPUPREAGG_FINAL_REDUCTION, m_gpreagg := True\<rparr>"

definition t_nospace :: GpuPreAggTask where
  "t_nospace = t_one\<lparr>task_kerror_errcode := StromError_DataStoreNoSpace,
                      kern_final_reduction_in_progress := True\<rparr>"

text \<open>
  The same state while a second task is in flight, after 24 launches of local reductions
  and 100 groups seen.
\<close>

definition s_busy :: gpuserv_state where
  "s_busy = s_one\<lparr>sstate := (sstate s_one)\<lparr>ntasks_in_progress := 2, n_tasks_local := 24,
                                             exec_ngroups := 100\<rparr>\<rparr>"

definition t_recheck :: GpuPreAggTask where
  "t_recheck = t_one\<lparr>task_kerror_errcode := StromError_CpuReCheck\<rparr>"


text \<open>Statistics after 1025 rows in 10 groups, of 2051 rows planned.\<close>

definition gpa_rows :: GpuPreAggSharedState where
  "gpa_rows = gpa0\<lparr>plan_nrows_in := 2051, exec_nrows_in := 1025, exec_ngroups := 10\<rparr>"

text \<open>A plan with a million groups.\<close>

definition gpa_big :: GpuPreAggSharedState where
  "gpa_big = gpa0\<lparr>plan_ngroups := 1000000\<rparr>"

subsection \<open>A query of one chunk whose final reduction runs out of space\<close>

definition and_then :: "fault + 'a \<Rightarrow> ('a \<Rightarrow> fault + 'b) \<Rightarrow> fault + 'b" where
  "and_then r f = (case r of Inl e \<Rightarrow> Inl e | Inr x \<Rightarrow> f x)"

text \<open>
  The only chunk of a grouped query is dispatched (\<open>scan_done\<close> is set with it), the task
  attaches to the first final buffer and is launched; the kernel reports
  \<^verbatim>\<open>StromError_DataStoreNoSpace\<close> during the final reduction; the task is completed, run
  again (it attaches to a second final buffer), the terminator pushed meanwhile is
  completed, and the kernel of the task reports success. The result is the state and the
  task when \<^verbatim>\<open>gpupreagg_complete_task\<close> is about to be called for the last time, and the
  values returned by process, complete, process and complete so far.
  \<^verbatim>\<open>gpupreagg_process_termination_task\<close> touches nothing of the state modelled here.
\<close>

definition nospace_retry_prefix ::
  "bool \<Rightarrow> gpu_env \<Rightarrow> gpuserv_state
     \<Rightarrow> fault + (gpuserv_state \<times> GpuPreAggTask \<times> int list)" where
  "nospace_retry_prefix cassert env st0 =
     and_then (gpupreagg_next_task cassert st0 1 False 0 2000 True) (\<lambda>(st1, t1).
     and_then (gpupreagg_process_reduction_task cassert env st1 t1 CUDA_SUCCESS CUDA_SUCCESS)
       (\<lambda>(st2, t2, rv2).
     case gpupreagg_respond_task st2
            (t2\<lparr>kern_kerror_errcode := StromError_DataStoreNoSpace,
                kern_final_reduction_in_progress := True\<rparr>) CUDA_SUCCESS of (st3, t3) \<Rightarrow>
     and_then (gpupreagg_complete_task cassert st3 t3) (\<lambda>(st4, t4, rv4).
     and_then (gpupreagg_process_reduction_task cassert env st4 t4 CUDA_SUCCESS CUDA_SUCCESS)
       (\<lambda>(st5, t5, rv5).
     case pushed_tasks st5 of
       [] \<Rightarrow> Inl NullPointer
     | tt # _ \<Rightarrow>
     and_then (gpupreagg_complete_task cassert st5 tt) (\<lambda>(st6, tt', rv6).
     case gpupreagg_respond_task st6
            (t5\<lparr>kern_kerror_errcode := StromError_Success, kern_num_groups := 1000\<rparr>)
            CUDA_SUCCESS of (st7, t7) \<Rightarrow>
     Inr (st7, t7, [rv2, rv4, rv5, rv6]))))))"

subsection \<open>A task that runs out of space before its final reduction\<close>

text \<open>
  A chunk of a grouped query is dispatched and its task launched; the kernel reports
  \<^verbatim>\<open>StromError_DataStoreNoSpace\<close> before the final reduction has begun; by the time the
  task is completed, other tasks have changed the shared state as \<open>others\<close> tells; the
  task is run again. The result is the reduction mode of the task after its
  construction, after the first launch, after the completion and after the second
  launch, and the values returned by process, complete and process.
\<close>

definition mode_reset_run ::
  "bool \<Rightarrow> gpu_env \<Rightarrow> gpuserv_state \<Rightarrow> (GpuPreAggSharedState \<Rightarrow> GpuPreAggSharedState)
     \<Rightarrow> fault + (reduction_mode list \<times> int list)" where
  "mode_reset_run cassert env st0 others =
     and_then (gpupreagg_next_task cassert st0 1 False 0 2000 False) (\<lambda>(st1, t1).
     and_then (gpupreagg_process_reduction_task cassert env st1 t1 CUDA_SUCCESS CUDA_SUCCESS)
       (\<lambda>(st2, t2, rv2).
     case gpupreagg_respond_task st2
            (t2\<lparr>kern_kerror_errcode := StromError_DataStoreNoSpace\<rparr>) CUDA_SUCCESS
       of (st3, t3) \<Rightarrow>
     and_then (gpupreagg_complete_task cassert (st3\<lparr>sstate := others (sstate st3)\<rparr>) t3)
       (\<lambda>(st4, t4, rv4).
     and_then (gpupreagg_process_reduction_task cassert env st4 t4 CUDA_SUCCESS CUDA_SUCCESS)
       (\<lambda>(st5, t5, rv5).
     Inr (map kern_reduction_mode [t1, t2, t4, t5], [rv2, rv4, rv5])))))"

subsection \<open>Two tasks launched before any task completes\<close>

text \<open>
  Two chunks of a grouped query are dispatched and their tasks are launched one after the
  other; no kernel has answered and no task has been completed yet. The result is the
  reduction modes the two tasks were launched with and the values returned by process.
\<close>

definition launch_before_completion_run ::
  "bool \<Rightarrow> gpu_env \<Rightarrow> gpuserv_state \<Rightarrow> fault + (reduction_mode list \<times> int list)" where
  "launch_before_completion_run cassert env st0 =
     and_then (gpupreagg_next_task cassert st0 1 False 0 2000 False) (\<lambda>(st1, t1).
     and_then (gpupreagg_next_task cassert st1 1 False 0 2000 False) (\<lambda>(st2, t2).
     and_then (gpupreagg_process_reduction_task cassert env st2 t1 CUDA_SUCCESS CUDA_SUCCESS)
       (\<lambda>(st3, t1', rv1).
     and_then (gpupreagg_process_reduction_task cassert env st3 t2 CUDA_SUCCESS CUDA_SUCCESS)
       (\<lambda>(st4, t2', rv2).
     Inr (map kern_reduction_mode [t1', t2'], [rv1, rv2])))))"

subsection \<open>A task retried after running out of device memory, then a recheck by the CPU\<close>

text \<open>
  Two chunks of a query with \<open>num_group_keys\<close> grouping keys. The first is dispatched and its task attaches to the final
  buffer, but the device memory of the task cannot be allocated: the task detaches and is
  run again (return value 1). On its second launch it attaches to the same buffer; its
  kernel succeeds with 1000 groups and the task is completed. Then the second and last
  chunk is dispatched, its task is launched on the same buffer and its kernel reports
  \<^verbatim>\<open>StromError_CpuReCheck\<close> before its final reduction has begun. The result is the state and
  the second task when \<^verbatim>\<open>gpupreagg_complete_task\<close> is about to be called for it, and the
  values returned by process, process, complete and process so far.
\<close>

definition oom_retry_recheck_prefix ::
  "bool \<Rightarrow> gpu_env \<Rightarrow> gpuserv_state \<Rightarrow> int
     \<Rightarrow> fault + (gpuserv_state \<times> GpuPreAggTask \<times> int list)" where
  "oom_retry_recheck_prefix cassert env st0 num_group_keys =
     and_then (gpupreagg_next_task cassert st0 num_group_keys False 0 2000 False) (\<lambda>(st1, t1).
     and_then (gpupreagg_process_reduction_task cassert env st1 t1
                 CUDA_SUCCESS CUDA_ERROR_OUT_OF_MEMORY)
       (\<lambda>(st2, t1a, rv2).
     and_then (gpupreagg_process_reduction_task cassert env st2 t1a CUDA_SUCCESS CUDA_SUCCESS)
       (\<lambda>(st3, t1b, rv3).
     case gpupreagg_respond_task st3
            (t1b\<lparr>kern_kerror_errcode := StromError_Success, kern_num_groups := 1000\<rparr>)
            CUDA_SUCCESS of (st4, t1c) \<Rightarrow>
     and_then (gpupreagg_complete_task cassert st4 t1c) (\<lambda>(st5, t1d, rv5).
     and_then (gpupreagg_next_task cassert st5 num_group_keys False 0 2000 True) (\<lambda>(st6, t2).
     and_then (gpupreagg_process_reduction_task cassert env st6 t2 CUDA_SUCCESS CUDA_SUCCESS)
       (\<lambda>(st7, t2a, rv7).
     case gpupreagg_respond_task st7
            (t2a\<lparr>kern_kerror_errcode := StromError_CpuReCheck\<rparr>) CUDA_SUCCESS of (st8, t2b) \<Rightarrow>
     Inr (st8, t2b, [rv2, rv3, rv5, rv7])))))))"

subsection \<open>The steps of the GPU server\<close>

text \<open>
  What can happen to the state while a query runs: a task is dispatched, a task is
  processed up to the launch of its kernel, the device answers, a task is completed.
\<close>

inductive gpuserv_step :: "gpuserv_state \<Rightarrow> gpuserv_state \<Rightarrow> bool" where
  next_task:
    "gpupreagg_next_task cassert st num_group_keys block nrows_per_block nitems is_last_task
       = Inr (st', gtask) \<Longrightarrow> gpuserv_step st st'"
| process_task:
    "gpupreagg_process_reduction_task cassert env st gpreagg rc_final rc_own
       = Inr (st', gpreagg', rv) \<Longrightarrow> gpuserv_step st st'"
| respond_task:
    "gpupreagg_respond_task st gpreagg status = (st', gpreagg') \<Longrightarrow> gpuserv_step st st'"
| complete_task:
    "gpupreagg_complete_task cassert st gpreagg = Inr (st', gpreagg', rv)
       \<Longrightarrow> gpuserv_step st st'"

text \<open>The final buffer \<open>a\<close> exists and is not the current buffer of the shared state.\<close>

definition detached :: "pds_ptr \<Rightarrow> gpuserv_state \<Rightarrow> bool" where
  "detached a st \<longleftrightarrow> a < length (pds_heap st) \<and> pds_final (sstate st) \<noteq> Some a"

section \<open>Properties\<close>

subsection \<open>Rounding to double\<close>

text \<open>
  A rounded value is off by at most \<open>2^-53\<close> of the exact one; integers below \<open>2^53\<close>, and
  their multiples by a power of two, are doubles; \<open>rd_eval\<close> computes the double nearest
  to a positive number from its scaling.
\<close>

lemma rne_of_int [simp]: "rne (of_int k) = k"
  by (simp add: rne_def)

lemma rne_near: "\<bar>of_int (rne m) - m\<bar> \<le> 1 / 2"
  unfolding rne_def Let_def
  by (auto simp: abs_if) linarith+

lemma dexp_bounds:
  assumes "x \<noteq> 0"
  shows "(2::real) powr of_int (dexp x) \<le> \<bar>x\<bar>" "\<bar>x\<bar> < (2::real) powr of_int (dexp x + 1)"
proof -
  have pos: "0 < \<bar>x\<bar>" using assms by simp
  have "\<lfloor>log 2 \<bar>x\<bar>\<rfloor> = dexp x" by (simp add: dexp_def)
  then have "2 powr of_int (dexp x) \<le> \<bar>x\<bar> \<and> \<bar>x\<bar> < 2 powr (of_int (dexp x) + 1)"
    using floor_log_eq_powr_iff[OF pos, of 2 "dexp x"] by simp
  then show "2 powr of_int (dexp x) \<le> \<bar>x\<bar>" "\<bar>x\<bar> < 2 powr of_int (dexp x + 1)"
    by simp_all
qed

lemma dexp_eqI:
  assumes "(2::real) powr of_int e \<le> \<bar>x\<bar>" "\<bar>x\<bar> < (2::real) powr of_int (e + 1)"
  shows "dexp x = e"
proof -
  have pos: "0 < \<bar>x\<bar>" using assms(1) by (smt (verit) powr_gt_zero)
  show ?thesis
    unfolding dexp_def using floor_log_eq_powr_iff[OF pos, of 2 e] assms by simp
qed

lemma rd_0 [simp]: "rd 0 = 0"
  by (simp add: rd_def)

lemma rd_error:
  "\<bar>rd x - x\<bar> \<le> \<bar>x\<bar> / 2 ^ 53"
proof (cases "x = 0")
  case True
  then show ?thesis by simp
next
  case False
  define u :: real where "u = 2 powr of_int (dexp x - 52)"
  have u: "0 < u" by (simp add: u_def)
  have rd: "rd x = of_int (rne (x / u)) * u"
    using False by (simp add: rd_def u_def Let_def)
  have "(of_int (rne (x / u)) - x / u) * u = rd x - x"
    using u by (simp add: rd field_simps)
  then have "\<bar>rd x - x\<bar> = \<bar>of_int (rne (x / u)) - x / u\<bar> * \<bar>u\<bar>"
    by (simp only: abs_mult[symmetric])
  also have "\<dots> = \<bar>of_int (rne (x / u)) - x / u\<bar> * u"
    using u by simp
  also have "\<dots> \<le> 1 / 2 * u"
    using rne_near[of "x / u"] u by (intro mult_right_mono) simp_all
  also have "u = 2 powr of_int (dexp x) / 2 ^ 52"
    by (simp add: u_def powr_diff flip: powr_realpow)
  also have "1 / 2 * (2 powr of_int (dexp x) / 2 ^ 52) \<le> 1 / 2 * (\<bar>x\<bar> / 2 ^ 52)"
    using dexp_bounds(1)[OF False] by (intro mult_left_mono divide_right_mono) simp_all
  finally show ?thesis by simp
qed

lemma rd_exact:
  assumes x: "x = of_int j * 2 powr of_int e" and j: "\<bar>j\<bar> < 2 ^ 53"
  shows "rd x = x"
proof (cases "x = 0")
  case True
  then show ?thesis by simp
next
  case False
  have "\<bar>x\<bar> = \<bar>of_int j\<bar> * 2 powr of_int e"
    by (simp add: x abs_mult)
  also have "\<dots> < 2 ^ 53 * 2 powr of_int e"
  proof (rule mult_strict_right_mono)
    have "of_int \<bar>j\<bar> < (of_int (2 ^ 53) :: real)" using j by (simp only: of_int_less_iff)
    then show "\<bar>real_of_int j\<bar> < 2 ^ 53" by simp
  qed simp
  also have "\<dots> = 2 powr of_int (53 + e)"
    by (simp add: powr_add flip: powr_realpow)
  finally have lt: "\<bar>x\<bar> < 2 powr of_int (53 + e)" .
  have "2 powr of_int (dexp x) < (2::real) powr of_int (53 + e)"
    using dexp_bounds(1)[OF False] lt by (rule le_less_trans)
  then have "real_of_int (dexp x) < real_of_int (53 + e)"
    by (simp only: powr_less_cancel_iff one_less_numeral_iff semiring_norm)
  then have d: "dexp x < 53 + e"
    by (simp only: of_int_less_iff)
  define t where "t = nat (e + 52 - dexp x)"
  have t: "int t = e + 52 - dexp x"
    using d by (simp add: t_def)
  define u :: real where "u = 2 powr of_int (dexp x - 52)"
  have u: "0 < u" by (simp add: u_def)
  have "2 powr of_int e = (2::real) powr of_int (int t) * u"
    unfolding u_def t by (simp flip: powr_add)
  also have "(2::real) powr of_int (int t) = 2 ^ t"
    by (simp add: powr_realpow)
  finally have e: "2 powr of_int e = 2 ^ t * u" .
  have "x / u = of_int (j * 2 ^ t)"
    using u by (simp add: x e)
  then have "rne (x / u) = j * 2 ^ t"
    by (simp only: rne_of_int)
  then have "rd x = of_int (j * 2 ^ t) * u"
    using False by (simp add: rd_def u_def Let_def)
  also have "\<dots> = x"
    by (simp add: x e)
  finally show ?thesis .
qed

lemma rd_of_int: "\<bar>j\<bar> < 2 ^ 53 \<Longrightarrow> rd (of_int j) = of_int j"
  using rd_exact[of "of_int j" j 0] by simp

lemma rd_of_nat: "n < 2 ^ 53 \<Longrightarrow> rd (of_nat n) = of_nat n"
  using rd_of_int[of "int n"] by simp

lemma rd_half_of_nat:
  assumes "n < 2 ^ 53"
  shows "rd (of_nat n / 2) = of_nat n / 2"
proof (rule rd_exact)
  have "(2::real) powr - 1 = 1 / 2" by (simp add: powr_neg_one)
  then show "real n / 2 = real_of_int (int n) * 2 powr real_of_int (- 1)" by simp
  show "\<bar>int n\<bar> < 2 ^ 53" using assms by simp
qed

lemma rd_numeral [simp]: "(numeral k :: nat) < 2 ^ 53 \<Longrightarrow> rd (numeral k) = numeral k"
  using rd_of_nat[of "numeral k"] by (simp only: of_nat_numeral)

lemma rd_1 [simp]: "rd 1 = 1"
  using rd_of_nat[of 1] by simp

lemma rd_eval:
  assumes "0 < x" "2 ^ 52 \<le> x * 2 ^ k" "x * 2 ^ k < 2 ^ 53"
  shows "rd x = of_int (rne (x * 2 ^ k)) / 2 ^ k"
proof -
  have "dexp x = 52 - int k"
  proof (rule dexp_eqI)
    have p: "(2::real) powr of_int (52 - int k) = 2 ^ 52 / 2 ^ k"
      by (simp add: powr_diff flip: powr_realpow)
    show "2 powr real_of_int (52 - int k) \<le> \<bar>x\<bar>"
      using assms(1,2) unfolding p by (simp add: field_simps)
    have q: "(2::real) powr of_int (52 - int k + 1) = 2 ^ 53 / 2 ^ k"
      by (simp add: powr_diff powr_add flip: powr_realpow)
    show "\<bar>x\<bar> < 2 powr real_of_int (52 - int k + 1)"
      using assms(1,3) unfolding q by (simp add: field_simps)
  qed
  then have "(2::real) powr of_int (dexp x - 52) = 1 / 2 ^ k"
    by (simp add: powr_minus divide_inverse flip: powr_realpow)
  then show ?thesis
    using assms(1) by (simp add: rd_def Let_def)
qed

lemma rd_cl_uint: "rd (real (unat (w :: cl_uint))) = real (unat w)"
proof (rule rd_of_nat)
  have "unat w < 2 ^ 32" using unsigned_less[of w] by simp
  then show "unat w < 2 ^ 53" by (rule less_le_trans) simp
qed

lemma rd_nonneg: "0 \<le> x \<Longrightarrow> 0 \<le> rd x"
  using rd_error[of x] by (simp add: abs_if field_simps split: if_splits)

lemma rne_bounds:
  assumes "2 ^ 52 \<le> m" "m < 2 ^ 53"
  shows "2 ^ 52 \<le> rne m" "rne m \<le> 2 ^ 53"
proof -
  have "real_of_int (rne m) \<ge> 2 ^ 52 - 1 / 2" "real_of_int (rne m) < 2 ^ 53 + 1 / 2"
    using rne_near[of m] assms by (simp_all add: abs_if split: if_splits)
  then have "real_of_int (rne m) > real_of_int (2 ^ 52 - 1)"
       "real_of_int (rne m) < real_of_int (2 ^ 53 + 1)"
    by simp_all
  then have "rne m > 2 ^ 52 - 1" "rne m < 2 ^ 53 + 1"
    by (simp_all only: of_int_less_iff)
  then show "2 ^ 52 \<le> rne m" "rne m \<le> 2 ^ 53" by simp_all
qed

lemma rne_minus: "rne (- m) = - rne m"
proof (cases "m = of_int \<lfloor>m\<rfloor>")
  case True
  then have "rne (- m) = rne (of_int (- \<lfloor>m\<rfloor>))" "rne m = rne (of_int \<lfloor>m\<rfloor>)"
    by simp_all
  then show ?thesis by (simp only: rne_of_int)
next
  case False
  then have f: "\<lfloor>- m\<rfloor> = - \<lfloor>m\<rfloor> - 1"
    by (metis ceiling_altdef ceiling_def add_diff_cancel_right' diff_minus_eq_add minus_diff_eq uminus_add_conv_diff)
  have lt: "of_int \<lfloor>m\<rfloor> < m" using False of_int_floor_le[of m] by linarith
  show ?thesis
    unfolding rne_def Let_def f using lt
    by (auto simp: algebra_simps)
qed

lemma rd_idem: "rd (rd x) = rd x"
proof (cases "x = 0")
  case True
  then show ?thesis by simp
next
  case False
  define e where "e = dexp x - 52"
  define u :: real where "u = 2 powr of_int e"
  define j where "j = rne (x / u)"
  have u: "0 < u" by (simp add: u_def)
  have rd: "rd x = of_int j * u"
    using False by (simp add: rd_def u_def e_def j_def Let_def)
  have p52: "(2::real) powr of_int (dexp x) = 2 ^ 52 * u"
    unfolding u_def e_def by (simp add: powr_diff flip: powr_realpow)
  have p53: "(2::real) powr of_int (dexp x + 1) = 2 ^ 53 * u"
    unfolding u_def e_def by (simp add: powr_diff powr_add flip: powr_realpow)
  have m: "2 ^ 52 \<le> \<bar>x / u\<bar>" "\<bar>x / u\<bar> < 2 ^ 53"
    using dexp_bounds[OF False] u unfolding p52 p53 by (simp_all add: field_simps)
  have jb: "\<bar>j\<bar> \<le> 2 ^ 53"
  proof (cases "0 \<le> x")
    case True
    then have "\<bar>x / u\<bar> = x / u" using u by simp
    with m rne_bounds[of "x / u"] show ?thesis by (simp add: j_def)
  next
    case neg: False
    then have a: "\<bar>x / u\<bar> = - (x / u)" using u by (simp add: abs_if field_simps)
    have "j = - rne (- (x / u))" by (simp add: j_def rne_minus)
    with m rne_bounds[of "- (x / u)"] show ?thesis unfolding a by simp
  qed
  show ?thesis
  proof (cases "\<bar>j\<bar> < 2 ^ 53")
    case True
    have "rd x = of_int j * 2 powr of_int e" by (simp add: rd u_def)
    then show ?thesis using True by (rule rd_exact)
  next
    case False
    with jb have "\<bar>j\<bar> = 2 ^ 53" by simp
    then consider "j = 2 ^ 53" | "j = - (2 ^ 53)" by (auto simp: abs_if split: if_splits)
    then have "rd x = of_int (j div 2) * 2 powr of_int (e + 1) \<and> \<bar>j div 2\<bar> < 2 ^ 53"
      by cases (simp_all add: rd u_def powr_add)
    then show ?thesis using rd_exact[of "rd x" "j div 2" "e + 1"] by simp
  qed
qed

lemma rd_between:
  assumes "0 \<le> v" "0 \<le> c" "v * c \<le> x" "x \<le> v * d"
  shows "v * (c * (1 - 1 / 2 ^ 53)) \<le> rd x \<and> rd x \<le> v * (d * (1 + 1 / 2 ^ 53))"
proof -
  have "0 \<le> v * c" using assms(1,2) by simp
  with assms(3) have x0: "0 \<le> x" by simp
  have e: "\<bar>rd x - x\<bar> \<le> x / 2 ^ 53" using rd_error[of x] x0 by simp
  have m: "x * (1 - 1 / 2 ^ 53) = x - x / 2 ^ 53" "x * (1 + 1 / 2 ^ 53) = x + x / 2 ^ 53"
    by (simp_all add: algebra_simps)
  have a: "v * (c * (1 - 1 / 2 ^ 53)) \<le> x * (1 - 1 / 2 ^ 53)"
    using mult_right_mono[OF assms(3), of "1 - 1 / 2 ^ 53"] by (simp add: mult.assoc)
  have b: "x * (1 - 1 / 2 ^ 53) \<le> rd x"
    unfolding m using e by linarith
  have c: "rd x \<le> x * (1 + 1 / 2 ^ 53)"
    unfolding m using e by linarith
  have d: "x * (1 + 1 / 2 ^ 53) \<le> v * (d * (1 + 1 / 2 ^ 53))"
    using mult_right_mono[OF assms(4), of "1 + 1 / 2 ^ 53"] by (simp add: mult.assoc)
  from order_trans[OF a b] order_trans[OF c d] show ?thesis by blast
qed

lemma mult_between:
  fixes x y :: real
  assumes "0 \<le> v1" "0 \<le> c1" "v1 * c1 \<le> x" "x \<le> v1 * d1"
    and "0 \<le> v2" "0 \<le> c2" "v2 * c2 \<le> y" "y \<le> v2 * d2"
  shows "(v1 * v2) * (c1 * c2) \<le> x * y \<and> x * y \<le> (v1 * v2) * (d1 * d2)"
proof -
  have a: "0 \<le> v1 * c1" "0 \<le> v2 * c2" using assms by simp_all
  then have x0: "0 \<le> x" "0 \<le> y" using assms(3,7) by simp_all
  have "(v1 * c1) * (v2 * c2) \<le> x * y"
    using assms(3,7) a x0 by (intro mult_mono) simp_all
  moreover have "x * y \<le> (v1 * d1) * (v2 * d2)"
    using assms(4,8) x0 by (intro mult_mono) (simp_all add: order_trans[OF x0(1) assms(4)])
  ultimately show ?thesis by (simp add: mult_ac)
qed

text \<open>The doubles nearest to 1/30 and to 29/30.\<close>

lemma rd_1_30: "rd (1 / 30) = 4803839602528529 / 144115188075855872"
  by (subst rd_eval[where k=57]) (simp_all add: rne_def)

lemma rd_29_30: "rd (1 - rd (1 / 30)) = 8706959279582959 / 9007199254740992"
  unfolding rd_1_30 by (subst rd_eval[where k=53]) (simp_all add: rne_def)

subsection \<open>Detaching: what the call does when it returns\<close>

lemma put_final_buffer_Some:
  assumes "gpreagg_pds_final gpreagg = Some a" "a < length (pds_heap st)"
    and "cassert \<longrightarrow> 0 < ntasks_in_progress (sstate st) \<and> 0 < ntasks_running (pds_heap st ! a)"
  shows "gpupreagg_put_final_buffer cassert st gpreagg rel force =
     (let t = (ntasks_in_progress (sstate st) - 1 = 0 \<and> scan_done (sstate st))
        \<or> (ntasks_running (pds_heap st ! a) - 1 = 0 \<and> (force \<or> pds_final (sstate st) \<noteq> Some a))
      in Inr (st\<lparr>sstate := (sstate st)
                   \<lparr>pds_final := (if force \<and> pds_final (sstate st) = Some a then None
                                  else pds_final (sstate st)),
                    ntasks_in_progress := ntasks_in_progress (sstate st) - 1\<rparr>,
              pds_heap := (pds_heap st)[a := (pds_heap st ! a)
                   \<lparr>ntasks_running := ntasks_running (pds_heap st ! a) - 1\<rparr>]\<rparr>,
           (if t \<and> \<not> rel then gpreagg else detach_pds_final gpreagg), t))"
  using assms
  by (auto simp: gpupreagg_put_final_buffer_def Let_def)

lemma put_final_buffer_Inr_D:
  assumes "gpupreagg_put_final_buffer cassert st gpreagg rel force = Inr r"
  shows "\<exists>a. gpreagg_pds_final gpreagg = Some a \<and> a < length (pds_heap st)
    \<and> (cassert \<longrightarrow> 0 < ntasks_in_progress (sstate st) \<and> 0 < ntasks_running (pds_heap st ! a))"
proof (cases "gpreagg_pds_final gpreagg")
  case None
  with assms show ?thesis
    by (simp add: gpupreagg_put_final_buffer_def Let_def split: if_splits)
next
  case (Some a)
  with assms show ?thesis
    by (simp add: gpupreagg_put_final_buffer_def Let_def split: if_splits)
qed

subsection \<open>When a detaching task is the terminator\<close>

text \<open>
  C2. Whenever \<^verbatim>\<open>gpupreagg_put_final_buffer\<close> returns, the in-flight task count and the
  running-task count of the task's buffer have each been decremented by one (with
  32-bit wrap-around), and the returned flag is true if and only if (a) the decremented
  in-flight count is zero while \<open>scan_done\<close> is set, or (b) the decremented running-task
  count of the task's buffer is zero while that buffer is not the shared state's current
  final buffer (as it stands after a forced detach).
\<close>

theorem put_final_buffer_terminator_iff:
  assumes "gpupreagg_put_final_buffer cassert st gpreagg rel force = Inr (st', gpreagg', terminator)"
  shows "\<exists>a. gpreagg_pds_final gpreagg = Some a \<and> a < length (pds_heap st)
           \<and> ntasks_in_progress (sstate st') = ntasks_in_progress (sstate st) - 1
           \<and> ntasks_running (pds_heap st' ! a) = ntasks_running (pds_heap st ! a) - 1
           \<and> scan_done (sstate st') = scan_done (sstate st)
           \<and> (terminator \<longleftrightarrow>
                 (ntasks_in_progress (sstate st') = 0 \<and> scan_done (sstate st'))
               \<or> (ntasks_running (pds_heap st' ! a) = 0 \<and> pds_final (sstate st') \<noteq> Some a))"
proof -
  from put_final_buffer_Inr_D[OF assms] obtain a where
    a: "gpreagg_pds_final gpreagg = Some a" "a < length (pds_heap st)"
    and c: "cassert \<longrightarrow> 0 < ntasks_in_progress (sstate st) \<and> 0 < ntasks_running (pds_heap st ! a)"
    by blast
  note eq = assms[unfolded put_final_buffer_Some[OF a c] Let_def]
  from eq have st': "st' = st\<lparr>sstate := (sstate st)
                   \<lparr>pds_final := (if force \<and> pds_final (sstate st) = Some a then None
                                  else pds_final (sstate st)),
                    ntasks_in_progress := ntasks_in_progress (sstate st) - 1\<rparr>,
              pds_heap := (pds_heap st)[a := (pds_heap st ! a)
                   \<lparr>ntasks_running := ntasks_running (pds_heap st ! a) - 1\<rparr>]\<rparr>"
    by simp
  from eq have t: "terminator \<longleftrightarrow>
          (ntasks_in_progress (sstate st) - 1 = 0 \<and> scan_done (sstate st))
        \<or> (ntasks_running (pds_heap st ! a) - 1 = 0 \<and> (force \<or> pds_final (sstate st) \<noteq> Some a))"
    by simp
  show ?thesis
    apply (rule exI[of _ a])
    using a t by (auto simp: st')
qed

theorem put_final_buffer_terminator_iff_witness:
  "gpupreagg_put_final_buffer True s_one t_one False False
     = Inr (s_one\<lparr>sstate := (sstate s_one)\<lparr>ntasks_in_progress := 0\<rparr>,
                  pds_heap := [\<lparr>ntasks_running = 0, kds_nrooms = 524285\<rparr>]\<rparr>, t_one, True)
   \<and> (\<exists>a. gpreagg_pds_final t_one = Some a \<and> a < length (pds_heap s_one)
         \<and> (True \<longleftrightarrow> (0 = (0::cl_uint) \<and> scan_done (sstate s_one))
                      \<or> ((0::cl_uint) = 0 \<and> Some 0 \<noteq> Some a)))"
proof -
  have h: "gpupreagg_put_final_buffer True s_one t_one False False
     = Inr (s_one\<lparr>sstate := (sstate s_one)\<lparr>ntasks_in_progress := 0\<rparr>,
                  pds_heap := [\<lparr>ntasks_running = 0, kds_nrooms = 524285\<rparr>]\<rparr>, t_one, True)"
    by (simp add: gpupreagg_put_final_buffer_def detach_pds_final_def Let_def s_one_def t_one_def gpa0_def gpupreagg_create_task_def)
  from put_final_buffer_terminator_iff[OF h] show ?thesis
    using h by (auto simp: s_one_def t_one_def gpa0_def gpupreagg_create_task_def)
qed

subsection \<open>One terminator for every final buffer\<close>

text \<open>
  C1 asks that for every final buffer exactly one task runs the termination step. In the
  run \<open>nospace_retry_prefix\<close> it fails for the second buffer. The task detaches twice, and
  each time \<^verbatim>\<open>gpupreagg_put_final_buffer\<close> takes it off \<open>ntasks_in_progress\<close>, which
  counted it once. So the counter is already zero while the task still runs on the second
  buffer: completing the task wraps the counter around to \<open>2^32 - 1\<close>, the buffer is still
  the current one, the task is not the terminator and is dropped (return value -1), and
  no terminator task has been pushed for the second buffer: the only pushed task is the
  one for the first buffer. The scan is done and no task is left, so nothing will ever
  terminate the second buffer. In a build with assertions the last completion stops at
  \<^verbatim>\<open>Assert(gpa_sstate->ntasks_in_progress > 0)\<close>.
\<close>

theorem nospace_retry_loses_terminator:
  "(case nospace_retry_prefix False env0 s0 of
      Inl f \<Rightarrow> False
    | Inr (st7, t7, rvs) \<Rightarrow>
        rvs = [0, 1, 0, 0]
        \<and> scan_done (sstate st7) \<and> ntasks_in_progress (sstate st7) = 0
        \<and> gpreagg_pds_final t7 = Some 1 \<and> pds_final (sstate st7) = Some 1
        \<and> map ntasks_running (pds_heap st7) = [0, 1]
        \<and> map gpreagg_pds_final (pushed_tasks st7) = [Some 0]
        \<and> gpupreagg_complete_task True st7 t7
            = Inl (AssertFailure ''gpa_sstate->ntasks_in_progress > 0'')
        \<and> (case gpupreagg_complete_task False st7 t7 of
              Inl f \<Rightarrow> False
            | Inr (st8, t8, rv8) \<Rightarrow>
                rv8 = - 1
                \<and> kern_reduction_mode t8 = GPUPREAGG_FINAL_REDUCTION
                \<and> ntasks_in_progress (sstate st8) = 4294967295
                \<and> pds_final (sstate st8) = Some 1
                \<and> map ntasks_running (pds_heap st8) = [0, 0]
                \<and> map gpreagg_pds_final (pushed_tasks st8) = [Some 0]))"
  by (simp add: nospace_retry_prefix_def and_then_def gpupreagg_next_task_def gpupreagg_create_task_def
      gpupreagg_process_reduction_task_def gpupreagg_get_final_buffer_def
      gpupreagg_alloc_final_buffer_def adjust_final_buffer_size_def curr_ngroups_def
      decide_reduction_mode_def double_to_size_t_def gpupreagg_put_final_buffer_def
      gpupreagg_push_terminator_task_def gpupreagg_complete_task_def
      gpupreagg_respond_task_def gpupreagg_cleanup_cuda_resources_def detach_pds_final_def
      Let_def s0_def gpa0_def env0_def STROMALIGN16_def)

subsection \<open>Choosing the reduction mode\<close>

text \<open>
  The blend of the planned and the observed number of groups, computed in doubles, is
  within \<open>2^-47\<close> of the exact weighted mean.
\<close>

lemma blend_error:
  fixes P0 E0 k :: nat
  assumes k: "k \<le> 30"
  shows "\<bar>rd (rd (rd (real P0) * rd (1 - rd (real k / 30))) + rd (rd (real E0) * rd (real k / 30)))
          - (real P0 * real (30 - k) + real E0 * real k) / 30\<bar>
         \<le> (real P0 * real (30 - k) + real E0 * real k) / 30 / 2 ^ 47"
proof -
  define w0 where "w0 = real k / 30"
  define w where "w = rd w0"
  define cm :: real where "cm = 1 - 1 / 2 ^ 53"
  define cp :: real where "cp = 1 + 1 / 2 ^ 53"
  define sm :: real where "sm = 1 - 29 / 2 ^ 53"
  define sp :: real where "sp = 1 + 29 / 2 ^ 53"
  have c0: "0 \<le> cm" "0 \<le> sm" "0 \<le> cp" "0 \<le> sp" "cm \<le> 1" "1 \<le> cp"
    by (simp_all add: cm_def sm_def cp_def sp_def)
  have w0: "0 \<le> w0" "w0 \<le> 1" using k by (simp_all add: w0_def)
  have W: "w0 * (1 * cm) \<le> w \<and> w \<le> w0 * (1 * cp)"
    unfolding w_def cm_def cp_def by (rule rd_between) (simp_all add: w0)
  have S0: "(1 - w0) * sm \<le> 1 - w \<and> 1 - w \<le> (1 - w0) * sp"
  proof (cases "k = 30")
    case True
    then show ?thesis by (simp add: w_def w0_def)
  next
    case False
    with k have "k \<le> 29" by simp
    then have "real k \<le> 29" by simp
    then have "w0 \<le> 29 / 30" by (simp add: w0_def)
    have b: "w0 / 2 ^ 53 \<le> 29 * (1 - w0) / 2 ^ 53"
      using \<open>w0 \<le> 29 / 30\<close> by (intro divide_right_mono) simp_all
    have e: "w0 * (1 * cm) = w0 - w0 / 2 ^ 53" "w0 * (1 * cp) = w0 + w0 / 2 ^ 53"
      "(1 - w0) * sm = 1 - w0 - 29 * (1 - w0) / 2 ^ 53" "(1 - w0) * sp = 1 - w0 + 29 * (1 - w0) / 2 ^ 53"
      by (simp_all add: cm_def cp_def sm_def sp_def field_simps)
    from W b show ?thesis unfolding e by linarith
  qed
  have S: "(1 - w0) * (sm * cm) \<le> rd (1 - w) \<and> rd (1 - w) \<le> (1 - w0) * (sp * cp)"
    unfolding cm_def cp_def using S0 w0 c0 by (intro rd_between) simp_all
  have P: "real P0 * (1 * cm) \<le> rd (real P0) \<and> rd (real P0) \<le> real P0 * (1 * cp)"
    unfolding cm_def cp_def by (rule rd_between) simp_all
  have E: "real E0 * (1 * cm) \<le> rd (real E0) \<and> rd (real E0) \<le> real E0 * (1 * cp)"
    unfolding cm_def cp_def by (rule rd_between) simp_all
  have PS: "(real P0 * (1 - w0)) * ((1 * cm) * (sm * cm)) \<le> rd (real P0) * rd (1 - w)
            \<and> rd (real P0) * rd (1 - w) \<le> (real P0 * (1 - w0)) * ((1 * cp) * (sp * cp))"
    using P S w0 c0 by (intro mult_between) simp_all
  have EW: "(real E0 * w0) * ((1 * cm) * (1 * cm)) \<le> rd (real E0) * w
            \<and> rd (real E0) * w \<le> (real E0 * w0) * ((1 * cp) * (1 * cp))"
    using E W w0 c0 by (intro mult_between) simp_all
  define a0 where "a0 = real P0 * (1 - w0)"
  define b0 where "b0 = real E0 * w0"
  have ab0: "0 \<le> a0" "0 \<le> b0" using w0 by (simp_all add: a0_def b0_def)
  have A: "a0 * (((1 * cm) * (sm * cm)) * cm) \<le> rd (rd (real P0) * rd (1 - w))
           \<and> rd (rd (real P0) * rd (1 - w)) \<le> a0 * (((1 * cp) * (sp * cp)) * cp)"
    unfolding cm_def[symmetric] cp_def[symmetric] a0_def
    using PS w0 c0 unfolding cm_def cp_def by (intro rd_between) simp_all
  have B: "b0 * (((1 * cm) * (1 * cm)) * cm) \<le> rd (rd (real E0) * w)
           \<and> rd (rd (real E0) * w) \<le> b0 * (((1 * cp) * (1 * cp)) * cp)"
    unfolding b0_def
    using EW w0 c0 unfolding cm_def cp_def by (intro rd_between) simp_all
  define lo where "lo = sm * cm * cm * cm"
  define hi where "hi = sp * cp * cp * cp"
  have lo: "lo \<le> cm * cm * cm" "0 \<le> lo" and hi: "cp * cp * cp \<le> hi"
    by (simp_all add: lo_def hi_def cm_def cp_def sm_def sp_def)
  have "b0 * lo \<le> b0 * (cm * cm * cm)" "b0 * (cp * cp * cp) \<le> b0 * hi"
    using lo hi ab0 by (simp_all add: mult_left_mono)
  with A B have AB: "(a0 + b0) * lo \<le> rd (rd (real P0) * rd (1 - w)) + rd (rd (real E0) * w)
      \<and> rd (rd (real P0) * rd (1 - w)) + rd (rd (real E0) * w) \<le> (a0 + b0) * hi"
    by (simp add: lo_def hi_def algebra_simps)
  define blend where "blend = rd (rd (rd (real P0) * rd (1 - w)) + rd (rd (real E0) * w))"
  have R: "(a0 + b0) * (lo * (1 - 1 / 2 ^ 53)) \<le> blend \<and> blend \<le> (a0 + b0) * (hi * (1 + 1 / 2 ^ 53))"
    unfolding blend_def using AB ab0 lo by (intro rd_between) simp_all
  have num: "1 - 1 / 2 ^ 47 \<le> lo * (1 - 1 / 2 ^ 53)" "hi * (1 + 1 / 2 ^ 53) \<le> 1 + 1 / 2 ^ 47"
    by (simp_all add: lo_def hi_def cm_def cp_def sm_def sp_def)
  have ab: "0 \<le> a0 + b0" using ab0 by simp
  have "(a0 + b0) * (1 - 1 / 2 ^ 47) \<le> (a0 + b0) * (lo * (1 - 1 / 2 ^ 53))"
       "(a0 + b0) * (hi * (1 + 1 / 2 ^ 53)) \<le> (a0 + b0) * (1 + 1 / 2 ^ 47)"
    by (rule mult_left_mono[OF num(1) ab], rule mult_left_mono[OF num(2) ab])
  with R have bl: "(a0 + b0) * (1 - 1 / 2 ^ 47) \<le> blend" "blend \<le> (a0 + b0) * (1 + 1 / 2 ^ 47)"
    by linarith+
  define t where "t = (a0 + b0) / 2 ^ 47"
  have "(a0 + b0) * (1 - 1 / 2 ^ 47) = (a0 + b0) - t"
    "(a0 + b0) * (1 + 1 / 2 ^ 47) = (a0 + b0) + t"
    by (simp_all add: t_def field_simps)
  with bl have "blend - (a0 + b0) \<le> t" "- (blend - (a0 + b0)) \<le> t"
    by simp_all
  then have "blend - (a0 + b0) \<le> (a0 + b0) / 2 ^ 47" "- (blend - (a0 + b0)) \<le> (a0 + b0) / 2 ^ 47"
    by (simp_all only: t_def)
  then have "\<bar>blend - (a0 + b0)\<bar> \<le> (a0 + b0) / 2 ^ 47"
    by (simp only: abs_le_iff)
  moreover have "a0 + b0 = (real P0 * real (30 - k) + real E0 * real k) / 30"
    using k by (simp add: a0_def b0_def w0_def field_simps of_nat_diff)
  ultimately show ?thesis
    by (simp add: blend_def w_def w0_def)
qed

lemma get_final_buffer_mode:
  assumes "gpupreagg_get_final_buffer cassert env st gpreagg rc = Inr (st', gpreagg', ok)"
  shows "kern_reduction_mode gpreagg' =
     (if kern_reduction_mode gpreagg = GPUPREAGG_INVALID_REDUCTION
      then decide_reduction_mode env (sstate st) gpreagg
      else kern_reduction_mode gpreagg)"
  using assms
  by (auto simp: gpupreagg_get_final_buffer_def Let_def
           split: if_splits option.splits sum.splits)

text \<open>The doubles of the two runs below, step by step.\<close>

lemma rd_260_29_30: "rd (260 * rd (1 - rd (1 / 30))) = 8843005518326443 / 35184372088832"
  unfolding rd_29_30 by (subst rd_eval[where k=45]) (simp_all add: rne_def)

lemma rd_blend_260_0_1:
  "rd (rd (260 * rd (1 - rd (1 / 30)))) = 8843005518326443 / 35184372088832"
  by (subst rd_idem) (rule rd_260_29_30)

lemma rd_7_30: "rd (7 / 30) = 4203359652212463 / 18014398509481984"
  by (subst rd_eval[where k=55]) (simp_all add: rne_def)

lemma rd_23_30: "rd (1 - rd (7 / 30)) = 863189928579345 / 1125899906842624"
  unfolding rd_7_30 by (subst rd_eval[where k=53]) (simp_all add: rne_def)

lemma rd_221_23_30: "rd (221 * rd (1 - rd (7 / 30))) = 5961405444251101 / 35184372088832"
  unfolding rd_23_30 by (subst rd_eval[where k=45]) (simp_all add: rne_def)

lemma rd_371_7_30: "rd (371 * rd (7 / 30)) = 1522896905244945 / 17592186044416"
  unfolding rd_7_30 by (subst rd_eval[where k=46]) (simp_all add: rne_def)

lemma rd_blend_221_371_7:
  "rd (rd (221 * rd (1 - rd (7 / 30))) + rd (371 * rd (7 / 30)))
     = 9007199254740991 / 35184372088832"
  unfolding rd_221_23_30 rd_371_7_30 by (subst rd_eval[where k=45]) (simp_all add: rne_def)

text \<open>
  C3, as stated, does not hold, in three ways.

  The weight of the observed group count counts the kernels launched so far, not the tasks
  completed: the four counters are incremented in \<^verbatim>\<open>gpupreagg_process_reduction_task\<close> when
  the kernel of a task is enqueued. With 260 groups planned, two tasks are launched before
  any task completes; the first is decided with weight 0 on a blend of 260 and runs a global
  reduction, the second is decided with weight 1/30 on a blend of about 251.3 and runs a
  local reduction, where the weight of the claim is 0 for both.

  The thresholds are floored: with a blend of exactly 500 and 2003 input rows the task runs
  a final reduction, since \<open>2003 / 4\<close> is 500 in C, although 500 is below a quarter of 2003.

  The blend is computed in doubles: with 221 groups planned, 371 observed and 7 launches
  the exact blend is 256, a quarter of the 1024 threads of a block, but the double is
  \<open>256 - 2^-45\<close> and the task runs a local reduction.
\<close>

theorem reduction_mode_not_as_claimed:
  "launch_before_completion_run True env0 (s0\<lparr>sstate := gpa0\<lparr>plan_ngroups := 260\<rparr>\<rparr>)
     = Inr ([GPUPREAGG_GLOBAL_REDUCTION, GPUPREAGG_LOCAL_REDUCTION], [0, 0])
   \<and> decide_reduction_mode env0 (gpa0\<lparr>plan_ngroups := 500\<rparr>)
         (gpupreagg_create_task 1 False 0 2003) = GPUPREAGG_FINAL_REDUCTION
   \<and> (500 :: real) < 2003 / 4
   \<and> decide_reduction_mode env0
         (gpa0\<lparr>plan_ngroups := 221, exec_ngroups := 371, n_tasks_local := 7\<rparr>)
         (gpupreagg_create_task 1 False 0 2000) = GPUPREAGG_LOCAL_REDUCTION
   \<and> (221 * (30 - 7) + 371 * 7) / 30 = real (unat (devBaselineMaxThreadsPerBlock env0 div 4))"
proof -
  have "launch_before_completion_run True env0 (s0\<lparr>sstate := gpa0\<lparr>plan_ngroups := 260\<rparr>\<rparr>)
     = Inr ([GPUPREAGG_GLOBAL_REDUCTION, GPUPREAGG_LOCAL_REDUCTION], [0, 0])"
    by (simp add: launch_before_completion_run_def and_then_def gpupreagg_next_task_def
        gpupreagg_create_task_def gpupreagg_process_reduction_task_def
        gpupreagg_get_final_buffer_def decide_reduction_mode_def
        gpupreagg_alloc_final_buffer_def adjust_final_buffer_size_def curr_ngroups_def
        curr_nrows_in_def gpupreagg_put_final_buffer_def detach_pds_final_def
        gpupreagg_cleanup_cuda_resources_def double_to_size_t_def env0_def gpa0_def s0_def
        STROMALIGN16_def Let_def rd_blend_260_0_1)
  moreover have "decide_reduction_mode env0 (gpa0\<lparr>plan_ngroups := 500\<rparr>)
         (gpupreagg_create_task 1 False 0 2003) = GPUPREAGG_FINAL_REDUCTION"
    by (simp add: decide_reduction_mode_def gpupreagg_create_task_def env0_def gpa0_def Let_def)
  moreover have "decide_reduction_mode env0
         (gpa0\<lparr>plan_ngroups := 221, exec_ngroups := 371, n_tasks_local := 7\<rparr>)
         (gpupreagg_create_task 1 False 0 2000) = GPUPREAGG_LOCAL_REDUCTION"
    by (simp add: decide_reduction_mode_def gpupreagg_create_task_def env0_def gpa0_def Let_def
        rd_blend_221_371_7)
  moreover have "(221 * (30 - 7) + 371 * 7) / 30
                   = real (unat (devBaselineMaxThreadsPerBlock env0 div 4))"
    by (simp add: env0_def)
  ultimately show ?thesis by simp
qed

text \<open>
  C3, amended. A task whose reduction mode is undecided (a task of a query with grouping
  keys) leaves \<^verbatim>\<open>gpupreagg_get_final_buffer\<close> with a mode decided as follows. Let \<open>n\<close> be the
  sum of the four per-strategy counters of the shared state, the number of kernels launched
  so far, and \<open>w\<close> the double nearest to \<open>min n 30 / 30\<close>. The planned and the observed number
  of groups are blended with weight \<open>w\<close> on the observed one, every operation rounded to a
  double. The mode is Local if the blend is below \<^verbatim>\<open>devBaselineMaxThreadsPerBlock / 4\<close>, else
  Global if it is below \<^verbatim>\<open>nitems_real / 4\<close> of the task, else Final, both quotients being
  integer divisions. The blend is within \<open>2^-47\<close> of the exact weighted mean; it is the
  planned number before the first launch and the observed number from 30 launches on.
\<close>

theorem get_final_buffer_decides_mode:
  assumes "kern_reduction_mode gpreagg = GPUPREAGG_INVALID_REDUCTION"
    and "gpupreagg_get_final_buffer cassert env st gpreagg rc = Inr (st', gpreagg', ok)"
  shows "let gpa = sstate st;
             n = unat (n_tasks_nogrp gpa + n_tasks_local gpa
                       + n_tasks_global gpa + n_tasks_final gpa);
             w = rd (real (min n 30) / 30);
             planned = rd (real (unat (plan_ngroups gpa)));
             observed = rd (real (unat (exec_ngroups gpa)));
             blend = rd (rd (planned * rd (1 - w)) + rd (observed * w));
             exact = (real (unat (plan_ngroups gpa)) * real (30 - min n 30)
                      + real (unat (exec_ngroups gpa)) * real (min n 30)) / 30
         in kern_reduction_mode gpreagg' =
              (if blend < real (unat (devBaselineMaxThreadsPerBlock env div 4))
               then GPUPREAGG_LOCAL_REDUCTION
               else if blend < real (unat (kern_nitems_real gpreagg div 4))
               then GPUPREAGG_GLOBAL_REDUCTION
               else GPUPREAGG_FINAL_REDUCTION)
            \<and> \<bar>blend - exact\<bar> \<le> exact / 2 ^ 47
            \<and> (n = 0 \<longrightarrow> blend = planned)
            \<and> (30 \<le> n \<longrightarrow> blend = observed)"
proof -
  define gpa where "gpa = sstate st"
  define n where "n = unat (n_tasks_nogrp gpa + n_tasks_local gpa
                       + n_tasks_global gpa + n_tasks_final gpa)"
  define w where "w = rd (real (min n 30) / 30)"
  define planned where "planned = rd (real (unat (plan_ngroups gpa)))"
  define observed where "observed = rd (real (unat (exec_ngroups gpa)))"
  define blend where "blend = rd (rd (planned * rd (1 - w)) + rd (observed * w))"
  have m: "min (real n) 30 = real (min n 30)" by (simp add: min_def)
  have "kern_reduction_mode gpreagg' = decide_reduction_mode env gpa gpreagg"
    using get_final_buffer_mode[OF assms(2)] assms(1) by (simp add: gpa_def)
  then have mode: "kern_reduction_mode gpreagg' =
              (if blend < real (unat (devBaselineMaxThreadsPerBlock env div 4))
               then GPUPREAGG_LOCAL_REDUCTION
               else if blend < real (unat (kern_nitems_real gpreagg div 4))
               then GPUPREAGG_GLOBAL_REDUCTION
               else GPUPREAGG_FINAL_REDUCTION)"
    unfolding decide_reduction_mode_def Let_def n_def[symmetric] m
      w_def[symmetric] planned_def[symmetric] observed_def[symmetric] blend_def[symmetric]
    by simp
  have err: "\<bar>blend - (real (unat (plan_ngroups gpa)) * real (30 - min n 30)
                      + real (unat (exec_ngroups gpa)) * real (min n 30)) / 30\<bar>
            \<le> (real (unat (plan_ngroups gpa)) * real (30 - min n 30)
                      + real (unat (exec_ngroups gpa)) * real (min n 30)) / 30 / 2 ^ 47"
    unfolding blend_def planned_def observed_def w_def by (rule blend_error) simp
  have z: "blend = planned" if "n = 0"
    using that by (simp add: blend_def w_def planned_def rd_idem)
  have f: "blend = observed" if "30 \<le> n"
    using that by (simp add: blend_def w_def observed_def rd_idem min_def)
  from mode err z f show ?thesis
    unfolding Let_def gpa_def[symmetric] n_def[symmetric] w_def[symmetric]
      planned_def[symmetric] observed_def[symmetric] blend_def[symmetric]
    by simp
qed

theorem get_final_buffer_decides_mode_witness:
  "case gpupreagg_get_final_buffer True env0 s_busy (gpupreagg_create_task 1 False 0 2000)
          CUDA_SUCCESS of
     Inl f \<Rightarrow> False
   | Inr (st', g', ok) \<Rightarrow>
       kern_reduction_mode (gpupreagg_create_task 1 False 0 2000) = GPUPREAGG_INVALID_REDUCTION
       \<and> kern_reduction_mode g' = GPUPREAGG_GLOBAL_REDUCTION"
proof -
  let ?g = "gpupreagg_create_task 1 False 0 2000"
  have m: "kern_reduction_mode ?g = GPUPREAGG_INVALID_REDUCTION"
    by (simp add: gpupreagg_create_task_def)
  have "\<exists>st' g' ok. gpupreagg_get_final_buffer True env0 s_busy ?g CUDA_SUCCESS = Inr (st', g', ok)"
    by (auto simp: gpupreagg_get_final_buffer_def Let_def s_busy_def s_one_def t_one_def gpa0_def gpupreagg_create_task_def env0_def)
  then obtain st' g' ok where
    h: "gpupreagg_get_final_buffer True env0 s_busy ?g CUDA_SUCCESS = Inr (st', g', ok)"
    by blast
  from get_final_buffer_decides_mode[OF m h]
  have "kern_reduction_mode g' = GPUPREAGG_GLOBAL_REDUCTION"
    by (auto simp: s_busy_def s_one_def t_one_def gpa0_def gpupreagg_create_task_def env0_def
          Let_def abs_le_iff split: if_splits)
  with m h show ?thesis by simp
qed

subsection \<open>Out of space during the final reduction\<close>

lemma get_final_buffer_attach:
  assumes "gpupreagg_get_final_buffer cassert env st g rc = Inr (st', g', True)"
  shows "\<exists>b. gpreagg_pds_final g' = Some b \<and> pds_final (sstate st') = Some b
           \<and> (pds_final (sstate st) = Some b
               \<or> pds_final (sstate st) = None \<and> b = length (pds_heap st))"
proof (cases "pds_final (sstate st)")
  case None
  with assms show ?thesis
    by (auto simp: gpupreagg_get_final_buffer_def gpupreagg_alloc_final_buffer_def Let_def
             split: if_splits sum.splits prod.splits CUresult.splits)
next
  case (Some b)
  with assms show ?thesis
    by (auto simp: gpupreagg_get_final_buffer_def Let_def split: if_splits)
qed

lemma put_final_buffer_detached:
  assumes "gpupreagg_put_final_buffer c st g rel force = Inr (st', g', t)" "detached a st"
  shows "detached a st'"
proof -
  from put_final_buffer_Inr_D[OF assms(1)] obtain b where
    b: "gpreagg_pds_final g = Some b" "b < length (pds_heap st)"
    and c: "c \<longrightarrow> 0 < ntasks_in_progress (sstate st) \<and> 0 < ntasks_running (pds_heap st ! b)"
    by blast
  note eq = assms(1)[unfolded put_final_buffer_Some[OF b c] Let_def]
  from eq assms(2) show ?thesis
    by (auto simp: detached_def split: if_splits)
qed

lemma push_terminator_detached:
  "gpupreagg_push_terminator_task st g = (st', g') \<Longrightarrow> detached a st' = detached a st"
  by (auto simp: gpupreagg_push_terminator_task_def Let_def detached_def)

lemma get_final_buffer_detached:
  assumes "gpupreagg_get_final_buffer c env st g rc = Inr (st', g', ok)" "detached a st"
  shows "detached a st'"
proof (cases "pds_final (sstate st)")
  case None
  with assms show ?thesis
    by (auto simp: gpupreagg_get_final_buffer_def gpupreagg_alloc_final_buffer_def Let_def
                   detached_def
             split: if_splits sum.splits prod.splits CUresult.splits)
next
  case (Some b)
  with assms show ?thesis
    by (auto simp: gpupreagg_get_final_buffer_def Let_def detached_def split: if_splits)
qed

lemma complete_task_detached:
  assumes "gpupreagg_complete_task c st g = Inr (st', g', rv)" "detached a st"
  shows "detached a st'"
proof (cases "kern_reduction_mode g = GPUPREAGG_ONLY_TERMINATION")
  case True
  with assms show ?thesis
    by (auto simp: gpupreagg_complete_task_def Let_def split: if_splits option.splits)
next
  case False
  with assms show ?thesis
    by (auto simp: gpupreagg_complete_task_def Let_def
             split: if_splits sum.splits prod.splits
             dest!: put_final_buffer_detached[where a = a]
                    push_terminator_detached[where a = a])
qed

lemma process_reduction_task_detached:
  assumes "gpupreagg_process_reduction_task c env st g rc_final rc_own = Inr (st', g', rv)"
    and "detached a st"
  shows "detached a st'"
proof -
  from assms(1) obtain st1 g1 ok where
    get: "gpupreagg_get_final_buffer c env st g rc_final = Inr (st1, g1, ok)"
    by (auto simp: gpupreagg_process_reduction_task_def split: sum.splits)
  note d1 = get_final_buffer_detached[OF get assms(2)]
  have cnt: "detached a (st1\<lparr>sstate := f (sstate st1)\<rparr>) = detached a st1"
    if "pds_final (f (sstate st1)) = pds_final (sstate st1)" for f
    using that by (simp add: detached_def)
  from assms(1) d1 show ?thesis
    unfolding gpupreagg_process_reduction_task_def get
    by (auto simp: Let_def detached_def
             split: if_splits sum.splits prod.splits reduction_mode.splits
             dest!: put_final_buffer_detached[where a = a]
                    push_terminator_detached[where a = a])
qed

lemma gpuserv_step_detached:
  assumes "gpuserv_step st st'" "detached a st"
  shows "detached a st'"
  using assms
proof cases
  case (next_task cassert num_group_keys block nrows_per_block nitems is_last_task gtask)
  with assms(2) show ?thesis
    by (auto simp: gpupreagg_next_task_def Let_def detached_def split: if_splits)
next
  case (process_task cassert env gpreagg rc_final rc_own gpreagg' rv)
  with assms(2) show ?thesis by (auto dest: process_reduction_task_detached)
next
  case (respond_task gpreagg status gpreagg')
  with assms(2) show ?thesis
    by (auto simp: gpupreagg_respond_task_def Let_def detached_def
             split: if_splits CUresult.splits)
next
  case (complete_task cassert gpreagg gpreagg' rv)
  with assms(2) show ?thesis by (auto dest: complete_task_detached)
qed

lemma gpuserv_steps_detached:
  assumes "gpuserv_step\<^sup>*\<^sup>* st st'" "detached a st"
  shows "detached a st'"
  using assms by (induction rule: rtranclp_induct) (auto dest: gpuserv_step_detached)

text \<open>
  C4. A task that completes with \<^verbatim>\<open>StromError_DataStoreNoSpace\<close> raised during the final
  reduction: its final buffer is no longer the current buffer of the shared state, and
  it never is again, whatever steps the server takes, so no task that attaches afterwards
  gets it; if the task was the last one running on the buffer, a terminator task for
  that buffer is pushed; the task itself is returned for another run (return value 1)
  with \<open>retry_by_nospace\<close> set, detached from the buffer.
\<close>

theorem complete_task_nospace_in_final_reduction:
  assumes "kern_reduction_mode gpreagg \<noteq> GPUPREAGG_ONLY_TERMINATION"
    and "task_kerror_errcode gpreagg = StromError_DataStoreNoSpace"
    and "kern_final_reduction_in_progress gpreagg"
    and "gpupreagg_complete_task cassert st gpreagg = Inr (st', gpreagg', rv)"
  shows "\<exists>a. gpreagg_pds_final gpreagg = Some a \<and> a < length (pds_heap st)
           \<and> pds_final (sstate st') \<noteq> Some a
           \<and> (\<forall>st1. gpuserv_step\<^sup>*\<^sup>* st' st1 \<longrightarrow>
                 pds_final (sstate st1) \<noteq> Some a
                 \<and> (\<forall>c env g rc st2 g2.
                       gpupreagg_get_final_buffer c env st1 g rc = Inr (st2, g2, True)
                       \<longrightarrow> gpreagg_pds_final g2 \<noteq> Some a))
           \<and> (ntasks_running (pds_heap st ! a) = 1
                \<longrightarrow> (\<exists>tt. pushed_tasks st' = pushed_tasks st @ [tt]
                          \<and> gpreagg_pds_final tt = Some a
                          \<and> kern_reduction_mode tt = GPUPREAGG_ONLY_TERMINATION))
           \<and> rv = 1 \<and> retry_by_nospace gpreagg' \<and> gpreagg_pds_final gpreagg' = None
           \<and> kern_reduction_mode gpreagg' = kern_reduction_mode gpreagg"
proof -
  let ?put = "gpupreagg_put_final_buffer cassert st gpreagg False True"
  from assms have eq: "(case ?put of Inl f \<Rightarrow> Inl f
      | Inr (st1, g1, is_terminator) \<Rightarrow>
          let (st2, g2) = (if is_terminator then gpupreagg_push_terminator_task st1 g1
                           else (st1, g1))
          in Inr (st2, g2\<lparr>retry_by_nospace := True\<rparr>, 1)) = Inr (st', gpreagg', rv)"
    by (simp add: gpupreagg_complete_task_def)
  then obtain r where r: "?put = Inr r"
    by (cases ?put) auto
  from put_final_buffer_Inr_D[OF r] obtain a where
    a: "gpreagg_pds_final gpreagg = Some a" "a < length (pds_heap st)"
    and c: "cassert \<longrightarrow> 0 < ntasks_in_progress (sstate st) \<and> 0 < ntasks_running (pds_heap st ! a)"
    by blast
  note eq' = eq[unfolded put_final_buffer_Some[OF a c]]
  have len: "length (pds_heap st') = length (pds_heap st)"
    using eq' by (auto simp: Let_def gpupreagg_push_terminator_task_def split: if_splits)
  have det: "pds_final (sstate st') \<noteq> Some a"
    using eq' by (auto simp: Let_def gpupreagg_push_terminator_task_def split: if_splits)
  have d': "detached a st'"
    using det a(2) len by (simp add: detached_def)
  have att: "pds_final (sstate st1) \<noteq> Some a
                 \<and> (\<forall>c env g rc st2 g2.
                       gpupreagg_get_final_buffer c env st1 g rc = Inr (st2, g2, True)
                       \<longrightarrow> gpreagg_pds_final g2 \<noteq> Some a)"
    if "gpuserv_step\<^sup>*\<^sup>* st' st1" for st1
  proof -
    from gpuserv_steps_detached[OF that d']
    have d1: "a < length (pds_heap st1)" "pds_final (sstate st1) \<noteq> Some a"
      by (simp_all add: detached_def)
    have "gpreagg_pds_final g2 \<noteq> Some a"
      if "gpupreagg_get_final_buffer c env st1 g rc = Inr (st2, g2, True)" for c env g rc st2 g2
      using get_final_buffer_attach[OF that] d1 by auto
    with d1(2) show ?thesis by blast
  qed
  have push: "\<exists>tt. pushed_tasks st' = pushed_tasks st @ [tt]
                          \<and> gpreagg_pds_final tt = Some a
                          \<and> kern_reduction_mode tt = GPUPREAGG_ONLY_TERMINATION"
    if "ntasks_running (pds_heap st ! a) = 1"
    using eq' that a(1) by (auto simp: Let_def gpupreagg_push_terminator_task_def split: if_splits)
  have rest: "rv = 1 \<and> retry_by_nospace gpreagg' \<and> gpreagg_pds_final gpreagg' = None
           \<and> kern_reduction_mode gpreagg' = kern_reduction_mode gpreagg"
    using eq' by (auto simp: Let_def gpupreagg_push_terminator_task_def detach_pds_final_def
                       split: if_splits)
  from a det att push rest show ?thesis by blast
qed

theorem complete_task_nospace_in_final_reduction_witness:
  "case gpupreagg_complete_task True s_one t_nospace of
     Inl f \<Rightarrow> False
   | Inr (st', g', rv) \<Rightarrow>
       kern_reduction_mode t_nospace \<noteq> GPUPREAGG_ONLY_TERMINATION
       \<and> task_kerror_errcode t_nospace = StromError_DataStoreNoSpace
       \<and> kern_final_reduction_in_progress t_nospace
       \<and> rv = 1 \<and> retry_by_nospace g' \<and> gpreagg_pds_final g' = None
       \<and> pds_final (sstate st') \<noteq> Some 0
       \<and> map gpreagg_pds_final (pushed_tasks st') = [Some 0]"
proof -
  have m: "kern_reduction_mode t_nospace \<noteq> GPUPREAGG_ONLY_TERMINATION"
    and e: "task_kerror_errcode t_nospace = StromError_DataStoreNoSpace"
    and p: "kern_final_reduction_in_progress t_nospace"
    by (simp_all add: t_nospace_def t_one_def)
  have "\<exists>st' g' rv. gpupreagg_complete_task True s_one t_nospace = Inr (st', g', rv)"
    by (simp add: gpupreagg_complete_task_def gpupreagg_put_final_buffer_def
      gpupreagg_push_terminator_task_def gpupreagg_cleanup_cuda_resources_def
      detach_pds_final_def Let_def t_nospace_def s_one_def t_one_def gpa0_def gpupreagg_create_task_def)
  then obtain st' g' rv where
    h: "gpupreagg_complete_task True s_one t_nospace = Inr (st', g', rv)"
    by blast
  have a0: "gpreagg_pds_final t_nospace = Some 0" "ntasks_running (pds_heap s_one ! 0) = 1"
    "pushed_tasks s_one = []"
    by (simp_all add: t_nospace_def t_one_def s_one_def)
  from complete_task_nospace_in_final_reduction[OF m e p h] a0
  have "rv = 1 \<and> retry_by_nospace g' \<and> gpreagg_pds_final g' = None
       \<and> pds_final (sstate st') \<noteq> Some 0
       \<and> map gpreagg_pds_final (pushed_tasks st') = [Some 0]"
    by auto
  with m e p h show ?thesis by simp
qed

subsection \<open>Recheck by the CPU\<close>

lemma word_pred_eq_0: "(x - 1 = 0) = (x = (1::'a::len word))"
  by auto

lemma complete_task_cpu_recheck_eq:
  assumes m: "kern_reduction_mode gpreagg \<noteq> GPUPREAGG_ONLY_TERMINATION"
    and e: "task_kerror_errcode gpreagg = StromError_CpuReCheck"
  shows "gpupreagg_complete_task cassert st gpreagg =
    (let g0 = gpupreagg_cleanup_cuda_resources gpreagg
     in case gpupreagg_put_final_buffer cassert st g0
               (kern_final_reduction_in_progress gpreagg) False of
          Inl f \<Rightarrow> Inl f
        | Inr (st1, g1, is_terminator) \<Rightarrow>
            if kern_final_reduction_in_progress gpreagg then Inr (st1, g1, 0)
            else let (st2, g2) = (if is_terminator
                                  then gpupreagg_push_terminator_task st1 g1
                                  else (st1, g1))
                 in Inr (st2, g2\<lparr>task_kerror_errcode := StromError_Success,
                                 task_cpu_fallback := True\<rparr>, 0))"
  using m e
  by (simp add: gpupreagg_complete_task_def Let_def gpupreagg_cleanup_cuda_resources_def
           split: sum.splits)

text \<open>
  What \<^verbatim>\<open>gpupreagg_complete_task\<close> does with a task that reports \<^verbatim>\<open>StromError_CpuReCheck\<close>:
  the task is handed back to the backend (return value 0). If its final reduction had not
  begun, the error code is cleared and \<open>cpu_fallback\<close> is set, so \<^verbatim>\<open>gpupreagg_switch_task\<close>
  raises nothing, and a terminator task is pushed exactly when the two counters said so at
  the detach. If the final reduction was in progress, the task keeps the error code, no
  terminator is pushed, and \<^verbatim>\<open>gpupreagg_switch_task\<close> raises the error in the backend.
\<close>

lemma complete_task_cpu_recheck_branches:
  assumes m: "kern_reduction_mode gpreagg \<noteq> GPUPREAGG_ONLY_TERMINATION"
    and e: "task_kerror_errcode gpreagg = StromError_CpuReCheck"
    and h: "gpupreagg_complete_task cassert st gpreagg = Inr (st', gpreagg', rv)"
  shows "rv = 0 \<and> (\<exists>a. gpreagg_pds_final gpreagg = Some a \<and> a < length (pds_heap st) \<and>
     (if kern_final_reduction_in_progress gpreagg
      then task_kerror_errcode gpreagg' = StromError_CpuReCheck
           \<and> task_cpu_fallback gpreagg' = task_cpu_fallback gpreagg
           \<and> gpupreagg_switch_task gpreagg' = Inl (ElogError ''GPU kernel error'')
           \<and> pushed_tasks st' = pushed_tasks st
      else task_kerror_errcode gpreagg' = StromError_Success
           \<and> task_cpu_fallback gpreagg'
           \<and> gpupreagg_switch_task gpreagg' = Inr ()
           \<and> (if (ntasks_in_progress (sstate st) = 1 \<and> scan_done (sstate st))
                 \<or> (ntasks_running (pds_heap st ! a) = 1 \<and> pds_final (sstate st) \<noteq> Some a)
               then \<exists>tt. pushed_tasks st' = pushed_tasks st @ [tt]
                         \<and> gpreagg_pds_final tt = Some a
                         \<and> kern_reduction_mode tt = GPUPREAGG_ONLY_TERMINATION
               else pushed_tasks st' = pushed_tasks st)))"
proof -
  let ?g0 = "gpupreagg_cleanup_cuda_resources gpreagg"
  let ?put = "gpupreagg_put_final_buffer cassert st ?g0
                (kern_final_reduction_in_progress gpreagg) False"
  note eq = h[unfolded complete_task_cpu_recheck_eq[OF m e] Let_def]
  then obtain r where r: "?put = Inr r"
    by (cases ?put) auto
  from put_final_buffer_Inr_D[OF r] obtain a where
    a: "gpreagg_pds_final ?g0 = Some a" "a < length (pds_heap st)"
    and c: "cassert \<longrightarrow> 0 < ntasks_in_progress (sstate st) \<and> 0 < ntasks_running (pds_heap st ! a)"
    by blast
  have a': "gpreagg_pds_final gpreagg = Some a"
    using a(1) by (simp add: gpupreagg_cleanup_cuda_resources_def)
  note eq' = eq[unfolded put_final_buffer_Some[OF a c]]
  have rv: "rv = 0"
    using eq' by (auto simp: Let_def split: if_splits prod.splits)
  show ?thesis
  proof (cases "kern_final_reduction_in_progress gpreagg")
    case True
    with eq' e have "task_kerror_errcode gpreagg' = StromError_CpuReCheck
           \<and> task_cpu_fallback gpreagg' = task_cpu_fallback gpreagg
           \<and> gpupreagg_switch_task gpreagg' = Inl (ElogError ''GPU kernel error'')
           \<and> pushed_tasks st' = pushed_tasks st"
      by (auto simp: Let_def gpupreagg_cleanup_cuda_resources_def detach_pds_final_def
                     gpupreagg_switch_task_def split: if_splits)
    with True rv a' a(2) show ?thesis by auto
  next
    case False
    with eq' have 1: "task_kerror_errcode gpreagg' = StromError_Success
           \<and> task_cpu_fallback gpreagg' \<and> gpupreagg_switch_task gpreagg' = Inr ()"
      by (auto simp: Let_def gpupreagg_switch_task_def split: if_splits prod.splits)
    from False eq' a' have 2: "(if (ntasks_in_progress (sstate st) = 1 \<and> scan_done (sstate st))
                 \<or> (ntasks_running (pds_heap st ! a) = 1 \<and> pds_final (sstate st) \<noteq> Some a)
               then \<exists>tt. pushed_tasks st' = pushed_tasks st @ [tt]
                         \<and> gpreagg_pds_final tt = Some a
                         \<and> kern_reduction_mode tt = GPUPREAGG_ONLY_TERMINATION
               else pushed_tasks st' = pushed_tasks st)"
      by (auto simp: Let_def gpupreagg_push_terminator_task_def word_pred_eq_0
                     gpupreagg_cleanup_cuda_resources_def split: if_splits)
    from False rv a' a(2) 1 2 show ?thesis by auto
  qed
qed

lemma rd_1000_29_30:
  "rd (1000 * rd (1 - rd (1 / 30))) = 8502889921467733 / 8796093022208"
  unfolding rd_29_30 by (subst rd_eval[where k=43]) (simp_all add: rne_def)

lemma rd_1000_1_30: "rd (1000 * rd (1 / 30)) = 4691249611844267 / 140737488355328"
  unfolding rd_1_30 by (subst rd_eval[where k=47]) (simp_all add: rne_def)

lemma rd_blend_1000_1000_1:
  "rd (rd (1000 * rd (1 - rd (1 / 30))) + rd (1000 * rd (1 / 30))) = 1000"
  unfolding rd_1000_29_30 rd_1000_1_30 by (subst rd_eval[where k=43]) (simp_all add: rne_def)

text \<open>
  C5 asks that a task switched to the CPU fallback still pushes a terminator task if it was
  the last holder of its final buffer. In the run \<open>oom_retry_recheck_prefix\<close> of a grouped
  query it does not. The first task detaches twice, once when its device memory cannot be
  allocated and once when it completes, and each time \<^verbatim>\<open>gpupreagg_put_final_buffer\<close> takes
  it off \<open>ntasks_in_progress\<close>, which counted it once. So the counter is already zero while
  the second and last task runs, the only task on the buffer, which holds the groups of the
  first task. Completing it with \<^verbatim>\<open>StromError_CpuReCheck\<close> wraps the counter around to
  \<open>2^32 - 1\<close>; the buffer is still the current one, so the task is not the terminator: it is
  handed to the CPU fallback with its error cleared, and no terminator task is pushed. The
  scan is done and no task is left, so nothing will ever terminate the buffer. In a build
  with assertions the same run of a query without grouping keys stops at
  \<^verbatim>\<open>Assert(gpa_sstate->ntasks_in_progress > 0)\<close> when the first task completes, and the run
  of the grouped query stops earlier, when the first task is launched again with its
  reduction mode already decided.
\<close>

theorem cpu_recheck_after_retry_no_terminator:
  "(case oom_retry_recheck_prefix False env0 s0 1 of
      Inl f \<Rightarrow> False
    | Inr (st8, t2, rvs) \<Rightarrow>
        rvs = [1, 0, - 1, 0]
        \<and> scan_done (sstate st8) \<and> ntasks_in_progress (sstate st8) = 0
        \<and> gpreagg_pds_final t2 = Some 0 \<and> pds_final (sstate st8) = Some 0
        \<and> map ntasks_running (pds_heap st8) = [1]
        \<and> pushed_tasks st8 = []
        \<and> f_nitems (sstate st8) = 1000
        \<and> task_kerror_errcode t2 = StromError_CpuReCheck
        \<and> \<not> kern_final_reduction_in_progress t2
        \<and> (case gpupreagg_complete_task False st8 t2 of
              Inl f \<Rightarrow> False
            | Inr (st9, t9, rv9) \<Rightarrow>
                rv9 = 0
                \<and> task_cpu_fallback t9 \<and> task_kerror_errcode t9 = StromError_Success
                \<and> gpupreagg_switch_task t9 = Inr ()
                \<and> scan_done (sstate st9)
                \<and> ntasks_in_progress (sstate st9) = 4294967295
                \<and> pds_final (sstate st9) = Some 0
                \<and> map ntasks_running (pds_heap st9) = [0]
                \<and> pushed_tasks st9 = []))
   \<and> oom_retry_recheck_prefix True env0 s0 0
       = Inl (AssertFailure ''gpa_sstate->ntasks_in_progress > 0'')
   \<and> oom_retry_recheck_prefix True env0 s0 1
       = Inl (AssertFailure ''gpreagg->kern.reduction_mode==GPUPREAGG_NOGROUP_REDUCTION'')"
  by (simp add: oom_retry_recheck_prefix_def and_then_def gpupreagg_next_task_def
      gpupreagg_create_task_def gpupreagg_process_reduction_task_def
      gpupreagg_get_final_buffer_def gpupreagg_alloc_final_buffer_def
      adjust_final_buffer_size_def curr_ngroups_def curr_nrows_in_def
      decide_reduction_mode_def double_to_size_t_def gpupreagg_put_final_buffer_def
      gpupreagg_push_terminator_task_def gpupreagg_complete_task_def
      gpupreagg_respond_task_def gpupreagg_cleanup_cuda_resources_def detach_pds_final_def
      gpupreagg_switch_task_def Let_def s0_def gpa0_def env0_def STROMALIGN16_def
      rd_blend_1000_1000_1)

subsection \<open>The number of groups to provide for\<close>

text \<open>
  Bounds on logarithms: the quotient \<open>10 \<sqdot> ln 2050 / ln 1025\<close> lies well inside the interval
  from 10 to 11 and \<open>10 \<sqdot> ln 2051 / ln 1025\<close> well inside the interval from 11 to 12, so
  that the rounding of the double operations does not change their integer parts.
\<close>

lemma ln_2_ge_half: "1 / 2 \<le> ln (2::real)"
proof -
  have "ln (1 - 1 / 2 :: real) \<le> - (1 / 2)"
    by (rule ln_one_minus_pos_upper_bound) simp_all
  moreover have "ln (1 - 1 / 2 :: real) = - ln 2"
    by (simp add: ln_div)
  ultimately show ?thesis by simp
qed

lemma ln_1025: "ln (1025::real) = 10 * ln 2 + ln (1 + 1 / 1024)"
proof -
  have "(1025::real) = 2 ^ 10 * (1 + 1 / 1024)" by simp
  then have "ln (1025::real) = ln (2 ^ 10 * (1 + 1 / 1024))" by simp
  also have "\<dots> = ln ((2::real) ^ 10) + ln (1 + 1 / 1024)"
    by (rule ln_mult_pos) simp_all
  also have "ln ((2::real) ^ 10) = 10 * ln 2" by (simp only: ln_realpow of_nat_numeral)
  finally show ?thesis .
qed

lemma ln_2050: "ln (2050::real) = 11 * ln 2 + ln (1 + 1 / 1024)"
proof -
  have "(2050::real) = 2 * 1025" by simp
  then have "ln (2050::real) = ln (2 * 1025)" by simp
  also have "\<dots> = ln 2 + ln 1025" by (rule ln_mult_pos) simp_all
  finally show ?thesis by (simp add: ln_1025)
qed

lemma ln_2051: "ln (2051::real) = 11 * ln 2 + ln (1 + 1 / 1024) + ln (1 + 1 / 2050)"
proof -
  have "(2051::real) = 2050 * (1 + 1 / 2050)" by simp
  then have "ln (2051::real) = ln (2050 * (1 + 1 / 2050))" by simp
  also have "\<dots> = ln 2050 + ln (1 + 1 / 2050)" by (rule ln_mult_pos) simp_all
  finally show ?thesis by (simp add: ln_2050)
qed

lemma ln_small_bounds:
  fixes x :: real
  assumes "0 \<le> x" "x \<le> 1"
  shows "x - x\<^sup>2 \<le> ln (1 + x)" "ln (1 + x) \<le> x"
  using ln_one_plus_pos_lower_bound[OF assms] ln_add_one_self_le_self[OF assms(1)]
  by simp_all

lemma ratio_2050: "21 / 2 \<le> 10 * ln 2050 / ln (1025::real)" "10 * ln 2050 / ln (1025::real) \<le> 10.99995"
proof -
  define a where "a = ln (2::real)"
  define h where "h = ln (1 + 1 / 1024 :: real)"
  have a: "1 / 2 \<le> a" "a < 1" using ln_2_ge_half ln_2_less_1 by (simp_all add: a_def)
  have h: "1 / 1024 - (1 / 1024)\<^sup>2 \<le> h" "h \<le> 1 / 1024"
    unfolding h_def by (rule ln_small_bounds; simp)+
  have pos: "0 < 10 * a + h" using a h by (simp add: power2_eq_square)
  show "21 / 2 \<le> 10 * ln 2050 / ln (1025::real)"
    unfolding ln_1025 ln_2050 a_def[symmetric] h_def[symmetric]
    using pos a h by (simp add: field_simps power2_eq_square)
  show "10 * ln 2050 / ln (1025::real) \<le> 10.99995"
    unfolding ln_1025 ln_2050 a_def[symmetric] h_def[symmetric]
    using pos a h by (simp add: field_simps power2_eq_square)
qed

lemma ratio_2051: "11.0001 \<le> 10 * ln 2051 / ln (1025::real)" "10 * ln 2051 / ln (1025::real) \<le> 11.9"
proof -
  define a where "a = ln (2::real)"
  define h where "h = ln (1 + 1 / 1024 :: real)"
  define x where "x = ln (1 + 1 / 2050 :: real)"
  have a: "1 / 2 \<le> a" "a < 1" using ln_2_ge_half ln_2_less_1 by (simp_all add: a_def)
  have h: "1 / 1024 - (1 / 1024)\<^sup>2 \<le> h" "h \<le> 1 / 1024"
    unfolding h_def by (rule ln_small_bounds; simp)+
  have x: "1 / 2050 - (1 / 2050)\<^sup>2 \<le> x" "x \<le> 1 / 2050"
    unfolding x_def by (rule ln_small_bounds; simp)+
  have pos: "0 < 10 * a + h" using a h by (simp add: power2_eq_square)
  show "11.0001 \<le> 10 * ln 2051 / ln (1025::real)"
    unfolding ln_1025 ln_2051 a_def[symmetric] h_def[symmetric] x_def[symmetric]
    using pos a h x by (simp add: field_simps power2_eq_square)
  show "10 * ln 2051 / ln (1025::real) \<le> 11.9"
    unfolding ln_1025 ln_2051 a_def[symmetric] h_def[symmetric] x_def[symmetric]
    using pos a h x by (simp add: field_simps power2_eq_square)
qed

lemma floor_log_ratio_doubles:
  fixes L1 L2 G lo hi :: real
  assumes L: "0 < L1" "0 < L2" and G: "0 \<le> G"
    and lo: "lo \<le> G * L2 / L1" and hi: "G * L2 / L1 \<le> hi" and lo0: "0 \<le> lo"
    and k1: "of_int k \<le> lo * (1 - 1 / 2 ^ 50)" and k2: "hi * (1 + 1 / 2 ^ 50) < of_int k + 1"
  shows "\<lfloor>rd (rd (G / rd L1) * rd L2)\<rfloor> = k"
proof -
  define cm :: real where "cm = 1 - 1 / 2 ^ 53"
  define cp :: real where "cp = 1 + 1 / 2 ^ 53"
  have c0: "0 < cm" "0 < cp" by (simp_all add: cm_def cp_def)
  have X1: "L1 * (1 * cm) \<le> rd L1 \<and> rd L1 \<le> L1 * (1 * cp)"
    unfolding cm_def cp_def using L by (intro rd_between) simp_all
  have x1: "0 < rd L1"
  proof -
    have "0 < L1 * (1 * cm)" using L c0 by simp
    with X1 show ?thesis by linarith
  qed
  have X2: "L2 * (1 * cm) \<le> rd L2 \<and> rd L2 \<le> L2 * (1 * cp)"
    unfolding cm_def cp_def using L by (intro rd_between) simp_all
  have gl: "0 \<le> G / L1" using G L by simp
  have "G / rd L1 \<le> G / (L1 * (1 * cm))"
    using X1 G L c0 x1 by (intro divide_left_mono) simp_all
  moreover have "G / (L1 * (1 * cp)) \<le> G / rd L1"
    using X1 G L c0 x1 by (intro divide_left_mono) simp_all
  ultimately have Q0: "G / L1 * (1 / cp) \<le> G / rd L1 \<and> G / rd L1 \<le> G / L1 * (1 / cm)"
    by simp
  have Q: "G / L1 * ((1 / cp) * cm) \<le> rd (G / rd L1) \<and> rd (G / rd L1) \<le> G / L1 * ((1 / cm) * cp)"
    using Q0 gl c0 unfolding cm_def cp_def by (intro rd_between) simp_all
  have M: "(G / L1 * L2) * (((1 / cp) * cm) * (1 * cm)) \<le> rd (G / rd L1) * rd L2
           \<and> rd (G / rd L1) * rd L2 \<le> (G / L1 * L2) * (((1 / cm) * cp) * (1 * cp))"
    using Q X2 gl L c0 by (intro mult_between) simp_all
  define v where "v = G / L1 * L2"
  have v0: "0 \<le> v" unfolding v_def using gl L by (intro mult_nonneg_nonneg) simp_all
  have v: "lo \<le> v" "v \<le> hi" using lo hi by (simp_all add: v_def)
  define p where "p = rd (rd (G / rd L1) * rd L2)"
  have P: "v * ((((1 / cp) * cm) * (1 * cm)) * cm) \<le> p \<and> p \<le> v * ((((1 / cm) * cp) * (1 * cp)) * cp)"
    unfolding p_def cm_def[symmetric] cp_def[symmetric]
    using M v0 c0 unfolding v_def cm_def cp_def by (intro rd_between) simp_all
  have num: "1 - 1 / 2 ^ 50 \<le> (((1 / cp) * cm) * (1 * cm)) * cm"
    "(((1 / cm) * cp) * (1 * cp)) * cp \<le> 1 + 1 / 2 ^ 50"
    by (simp_all add: cm_def cp_def)
  have "lo * (1 - 1 / 2 ^ 50) \<le> v * (1 - 1 / 2 ^ 50)"
    using v(1) by (intro mult_right_mono) simp_all
  also have "\<dots> \<le> v * ((((1 / cp) * cm) * (1 * cm)) * cm)"
    by (rule mult_left_mono[OF num(1) v0])
  finally have a: "of_int k \<le> p" using k1 P by linarith
  have "v * ((((1 / cm) * cp) * (1 * cp)) * cp) \<le> v * (1 + 1 / 2 ^ 50)"
    by (rule mult_left_mono[OF num(2) v0])
  also have "\<dots> \<le> hi * (1 + 1 / 2 ^ 50)"
    using v(2) by (intro mult_right_mono) simp_all
  finally have b: "p < of_int k + 1" using k2 P by linarith
  from a b show ?thesis unfolding p_def[symmetric] by (simp add: floor_eq_iff)
qed

lemma floor_estimate_2050: "\<lfloor>rd (rd (10 / rd (ln 1025)) * rd (ln 2050))\<rfloor> = 10"
  by (rule floor_log_ratio_doubles[OF _ _ _ ratio_2050 ]) simp_all

lemma floor_estimate_2051: "\<lfloor>rd (rd (10 / rd (ln 1025)) * rd (ln 2051))\<rfloor> = 11"
  by (rule floor_log_ratio_doubles[OF _ _ _ ratio_2051]) simp_all

text \<open>
  Against C6 as stated (the estimate is evaluated at the larger of the planned row count
  and twice the observed one): with 2051 planned rows, 1025 rows and 10 groups seen, the
  code evaluates at 2050 rows and gets 10 groups, where the same computation at the larger
  of the two, 2051, gives 11.
\<close>

theorem curr_ngroups_not_max:
  "\<not> exec_nrows_in gpa_rows < 1000
   \<and> unat (curr_nrows_in gpa_rows) = 2050
   \<and> max (unat (plan_nrows_in gpa_rows)) (2 * unat (exec_nrows_in gpa_rows)) = 2051
   \<and> curr_ngroups env0 gpa_rows = 10
   \<and> double_to_size_t
        (rd (rd (rd (real (unat (exec_ngroups gpa_rows)))
                 / libm_log env0 (rd (real (unat (exec_nrows_in gpa_rows)))))
             * libm_log env0
                 (rd (real (max (unat (plan_nrows_in gpa_rows))
                                (2 * unat (exec_nrows_in gpa_rows))))))) = 11"
  by (simp add: curr_ngroups_def curr_nrows_in_def gpa_rows_def gpa0_def env0_def
        double_to_size_t_def Let_def floor_estimate_2050 floor_estimate_2051)

lemma curr_nrows_in_unat:
  assumes "unat (exec_nrows_in gpa) < 2 ^ 63"
  shows "unat (curr_nrows_in gpa)
         = (if unat (plan_nrows_in gpa) = 2 * unat (exec_nrows_in gpa) + 1
            then 2 * unat (exec_nrows_in gpa)
            else max (unat (plan_nrows_in gpa)) (2 * unat (exec_nrows_in gpa)))"
proof -
  have d: "unat (2 * exec_nrows_in gpa) = 2 * unat (exec_nrows_in gpa)"
    using assms by (simp add: unat_word_ariths)
  have c: "exec_nrows_in gpa < plan_nrows_in gpa div 2
           \<longleftrightarrow> unat (exec_nrows_in gpa) < unat (plan_nrows_in gpa) div 2"
    by (simp add: word_less_nat_alt unat_div)
  show ?thesis
    unfolding curr_nrows_in_def c using d by (auto simp: max_def)
qed

text \<open>
  C6, amended. With fewer than 1000 rows seen the estimate is the planner's
  \<^verbatim>\<open>plan_ngroups\<close>, unchanged. Otherwise (and with fewer than \<open>2^63\<close> rows seen) it is
  \<open>A \<sqdot> log r\<close> cut to an integer, where \<open>A\<close> is the number of groups seen over \<open>log\<close> of the
  number of rows seen, \<open>log\<close> is the logarithm of the C library, the counts are converted
  to double, the quotient and the product are rounded to double, and \<open>r\<close> is the larger of
  the planned row count and twice the rows seen, except that \<open>r\<close> is twice the rows seen
  when the planned row count is just one more than that (the code compares the rows seen
  with the integer half of the planned count).
\<close>

theorem curr_ngroups_estimate:
  assumes "unat (exec_nrows_in gpa) < 2 ^ 63"
  shows "curr_ngroups env gpa =
     (if exec_nrows_in gpa < 1000 then plan_ngroups gpa
      else let plan = unat (plan_nrows_in gpa);
               seen = unat (exec_nrows_in gpa);
               A = rd (rd (real (unat (exec_ngroups gpa))) / libm_log env (rd (real seen)));
               r = (if plan = 2 * seen + 1 then 2 * seen else max plan (2 * seen))
           in double_to_size_t (rd (A * libm_log env (rd (real r)))))"
  unfolding curr_ngroups_def Let_def curr_nrows_in_unat[OF assms, symmetric]
  by simp

theorem curr_ngroups_estimate_witness:
  "unat (exec_nrows_in gpa_rows) < 2 ^ 63
   \<and> \<not> exec_nrows_in gpa_rows < 1000
   \<and> curr_ngroups env0 gpa_rows = 10
   \<and> exec_nrows_in gpa0 < 1000
   \<and> curr_ngroups env0 gpa0 = 1000"
proof -
  have h: "unat (exec_nrows_in gpa_rows) < 2 ^ 63"
    and n: "\<not> exec_nrows_in gpa_rows < 1000"
    and h0: "unat (exec_nrows_in gpa0) < 2 ^ 63"
    and n0: "exec_nrows_in gpa0 < 1000"
    by (simp_all add: gpa_rows_def gpa0_def)
  from curr_ngroups_estimate[OF h, of env0] n
  have a: "curr_ngroups env0 gpa_rows = 10"
    by (simp add: gpa_rows_def gpa0_def env0_def Let_def double_to_size_t_def
          floor_estimate_2050)
  from curr_ngroups_estimate[OF h0, of env0] n0
  have b: "curr_ngroups env0 gpa0 = 1000"
    by (simp add: gpa0_def)
  from h n a n0 b show ?thesis by simp
qed

subsection \<open>The footprint of the final buffer\<close>

lemma unat_double_to_size_t_naive:
  assumes "5 * n + 400 < 2 ^ 53"
  shows "unat (double_to_size_t (rd (rd (rd (real n) * 2.5) + 200))) = (5 * n) div 2 + 200"
proof -
  have n: "n < 2 ^ 53" "5 * n < 2 ^ 53" using assms by simp_all
  have 1: "rd (real n) = real n" by (rule rd_of_nat[OF n(1)])
  have e2: "real n * 2.5 = real (5 * n) / 2" by simp
  have 2: "rd (real n * 2.5) = real (5 * n) / 2"
    unfolding e2 by (rule rd_half_of_nat[OF n(2)])
  have e3: "real (5 * n) / 2 + 200 = real (5 * n + 400) / 2" by simp
  have 3: "rd (real (5 * n) / 2 + 200) = real (5 * n + 400) / 2"
    unfolding e3 by (rule rd_half_of_nat[OF assms])
  have "\<lfloor>real (5 * n + 400) / real 2\<rfloor> = int ((5 * n + 400) div 2)"
    by (rule floor_divide_of_nat_eq)
  then have 4: "nat \<lfloor>real (5 * n + 400) / 2\<rfloor> = (5 * n) div 2 + 200"
    by simp
  have "(5 * n) div 2 + 200 < 2 ^ 53" using assms by simp
  then have "(5 * n) div 2 + 200 < (2 :: nat) ^ 64"
    by (rule less_le_trans) simp
  then show ?thesis
    unfolding 1 2 3 double_to_size_t_def 4 unat_of_nat by simp
qed

lemma fits_in_units:
  fixes head unit T :: nat
  assumes "0 < unit" "head \<le> T"
  shows "head + unit * ((T - head) div unit) \<le> T"
    and "T < head + unit * ((T - head) div unit + 1)"
proof -
  have "unit * ((T - head) div unit) \<le> T - head"
    by simp
  with assms(2) show "head + unit * ((T - head) div unit) \<le> T" by linarith
  have "T - head < unit * ((T - head) div unit + 1)"
    using assms(1) dividend_less_times_div[of unit "T - head"] by (simp add: algebra_simps)
  with assms(2) show "T < head + unit * ((T - head) div unit + 1)" by linarith
qed

lemma unat_units_minus_head:
  fixes chunk head :: size_t
  assumes "3 * unat chunk < 2 ^ 64" "head \<le> chunk"
  shows "unat (chunk - head) = unat chunk - unat head"
    and "unat (2 * chunk - head) = 2 * unat chunk - unat head"
    and "unat (3 * chunk - head) = 3 * unat chunk - unat head"
proof -
  have h: "unat head \<le> unat chunk" using assms(2) by (simp add: word_le_nat_alt)
  have c2: "unat (2 * chunk) = 2 * unat chunk" and c3: "unat (3 * chunk) = 3 * unat chunk"
    using assms(1) by (simp_all add: unat_word_ariths)
  show "unat (chunk - head) = unat chunk - unat head"
    using assms(2) by (simp add: unat_sub)
  have "head \<le> 2 * chunk" using h c2 by (simp add: word_le_nat_alt)
  then show "unat (2 * chunk - head) = 2 * unat chunk - unat head"
    by (simp add: unat_sub c2)
  have "head \<le> 3 * chunk" using h c3 by (simp add: word_le_nat_alt)
  then show "unat (3 * chunk - head) = 3 * unat chunk - unat head"
    by (simp add: unat_sub c3)
qed

lemma adjust_final_buffer_size_Inr_D:
  assumes res: "adjust_final_buffer_size env gpa = Inr (salt, nrooms, extra, hashsize)"
  shows "extra = (if exec_ngroups gpa < 100 then plan_extra_sz gpa
                  else max ((exec_extra_sz gpa + exec_ngroups gpa - 1) div exec_ngroups gpa)
                           (plan_extra_sz gpa))"
    and "salt = (if curr_ngroups env gpa < ucast (devBaselineMaxThreadsPerBlock env div 5)
                 then max (ucast (devBaselineMaxThreadsPerBlock env)
                           div (5 * curr_ngroups env gpa)) 1
                 else 1)"
    and "nrooms =
      (let head_sz = KDS_CALCULATE_HEAD_LENGTH env (f_ncols gpa);
           unit_sz = STROMALIGN env (9 * ucast (f_ncols gpa)) + STROMALIGN env extra;
           naive = double_to_size_t
                     (rd (rd (rd (real (unat (curr_ngroups env gpa * salt))) * 2.5) + 200));
           len = head_sz + unit_sz * naive;
           chunk = pgstrom_chunk_size env
       in if len < chunk div 2 then (chunk - head_sz) div unit_sz
          else if len < chunk then (2 * chunk - head_sz) div unit_sz
          else if len < 3 * chunk then (3 * chunk - head_sz) div unit_sz
          else naive)"
    and "hashsize = 2 * nrooms"
    and "let head_sz = KDS_CALCULATE_HEAD_LENGTH env (f_ncols gpa);
             unit_sz = STROMALIGN env (9 * ucast (f_ncols gpa)) + STROMALIGN env extra;
             naive = double_to_size_t
                     (rd (rd (rd (real (unat (curr_ngroups env gpa * salt))) * 2.5) + 200));
             len = head_sz + unit_sz * naive;
             chunk = pgstrom_chunk_size env
         in (len < chunk div 2 \<or> len < chunk \<or> len < 3 * chunk) \<longrightarrow> unit_sz \<noteq> 0"
proof -
  define extra0 where
    "extra0 = (if exec_ngroups gpa < 100 then plan_extra_sz gpa
               else max ((exec_extra_sz gpa + exec_ngroups gpa - 1) div exec_ngroups gpa)
                        (plan_extra_sz gpa))"
  define salt0 where
    "salt0 = (if curr_ngroups env gpa < ucast (devBaselineMaxThreadsPerBlock env div 5)
              then max (ucast (devBaselineMaxThreadsPerBlock env)
                        div (5 * curr_ngroups env gpa)) 1
              else 1)"
  define c1 where
    "c1 \<longleftrightarrow> curr_ngroups env gpa < ucast (devBaselineMaxThreadsPerBlock env div 5)
            \<and> 5 * curr_ngroups env gpa = 0"
  define head0 where "head0 = KDS_CALCULATE_HEAD_LENGTH env (f_ncols gpa)"
  define unit0 where
    "unit0 = STROMALIGN env ((8 + 1) * ucast (f_ncols gpa)) + STROMALIGN env extra0"
  define naive0 where
    "naive0 = double_to_size_t
                (rd (rd (rd (real (unat (curr_ngroups env gpa * salt0))) * 2.5) + 200))"
  define len0 where "len0 = head0 + unit0 * naive0"
  define chunk0 where "chunk0 = pgstrom_chunk_size env"
  define c2 where
    "c2 \<longleftrightarrow> (len0 < chunk0 div 2 \<or> len0 < chunk0 \<or> len0 < 3 * chunk0) \<and> unit0 = 0"
  define nrooms0 where
    "nrooms0 = (if len0 < chunk0 div 2 then (chunk0 - head0) div unit0
                else if len0 < chunk0 then (2 * chunk0 - head0) div unit0
                else if len0 < 3 * chunk0 then (3 * chunk0 - head0) div unit0
                else naive0)"
  have flat: "adjust_final_buffer_size env gpa =
     (if c1 then Inl (DivisionByZero ''devBaselineMaxThreadsPerBlock / (5 * curr_ngroups)'')
      else if c2 then Inl (DivisionByZero ''(n * pgstrom_chunk_size() - head_sz) / unit_sz'')
      else Inr (salt0, nrooms0, extra0, 2 * nrooms0))"
    unfolding adjust_final_buffer_size_def Let_def extra0_def[symmetric] salt0_def[symmetric]
      c1_def[symmetric] head0_def[symmetric] unit0_def[symmetric] naive0_def[symmetric]
      len0_def[symmetric] chunk0_def[symmetric] c2_def[symmetric] nrooms0_def[symmetric]
    by (rule refl)
  from res have nc: "\<not> c1" "\<not> c2"
    and eqs: "salt = salt0" "nrooms = nrooms0" "extra = extra0" "hashsize = 2 * nrooms0"
    unfolding flat by (auto split: if_splits)
  have u9: "unit0 = STROMALIGN env (9 * ucast (f_ncols gpa)) + STROMALIGN env extra0"
    by (simp add: unit0_def)
  show "extra = (if exec_ngroups gpa < 100 then plan_extra_sz gpa
                  else max ((exec_extra_sz gpa + exec_ngroups gpa - 1) div exec_ngroups gpa)
                           (plan_extra_sz gpa))"
    unfolding eqs extra0_def by (rule refl)
  show "salt = (if curr_ngroups env gpa < ucast (devBaselineMaxThreadsPerBlock env div 5)
                 then max (ucast (devBaselineMaxThreadsPerBlock env)
                           div (5 * curr_ngroups env gpa)) 1
                 else 1)"
    unfolding eqs salt0_def by (rule refl)
  show "hashsize = 2 * nrooms"
    unfolding eqs by (rule refl)
  show "nrooms =
      (let head_sz = KDS_CALCULATE_HEAD_LENGTH env (f_ncols gpa);
           unit_sz = STROMALIGN env (9 * ucast (f_ncols gpa)) + STROMALIGN env extra;
           naive = double_to_size_t
                     (rd (rd (rd (real (unat (curr_ngroups env gpa * salt))) * 2.5) + 200));
           len = head_sz + unit_sz * naive;
           chunk = pgstrom_chunk_size env
       in if len < chunk div 2 then (chunk - head_sz) div unit_sz
          else if len < chunk then (2 * chunk - head_sz) div unit_sz
          else if len < 3 * chunk then (3 * chunk - head_sz) div unit_sz
          else naive)"
    unfolding Let_def eqs u9[symmetric] head0_def[symmetric] naive0_def[symmetric]
      len0_def[symmetric] chunk0_def[symmetric]
    by (rule nrooms0_def)
  show "let head_sz = KDS_CALCULATE_HEAD_LENGTH env (f_ncols gpa);
             unit_sz = STROMALIGN env (9 * ucast (f_ncols gpa)) + STROMALIGN env extra;
             naive = double_to_size_t
                     (rd (rd (rd (real (unat (curr_ngroups env gpa * salt))) * 2.5) + 200));
             len = head_sz + unit_sz * naive;
             chunk = pgstrom_chunk_size env
         in (len < chunk div 2 \<or> len < chunk \<or> len < 3 * chunk) \<longrightarrow> unit_sz \<noteq> 0"
    unfolding Let_def eqs u9[symmetric] head0_def[symmetric] naive0_def[symmetric]
      len0_def[symmetric] chunk0_def[symmetric]
    using nc(2) unfolding c2_def by blast
qed

text \<open>
  Against C7 as stated (the footprint is rounded up to whole allocation units): for a
  plan with a million groups the capacity stays at the 2500200 rows first computed; the
  footprint, 96 bytes of header and 32 bytes a row, is more than four chunks of 16MB and
  one more row would still fit into five.
\<close>

theorem footprint_not_rounded:
  "adjust_final_buffer_size env0 gpa_big = Inr (1, 2500200, 0, 5000400)
   \<and> unat (KDS_CALCULATE_HEAD_LENGTH env0 (f_ncols gpa_big)) = 96
   \<and> unat (STROMALIGN env0 (9 * ucast (f_ncols gpa_big)) + STROMALIGN env0 0) = 32
   \<and> unat (pgstrom_chunk_size env0) = 16777216
   \<and> 4 * 16777216 < 96 + 32 * (2500200::nat)
   \<and> 96 + 32 * (2500200 + 1) \<le> 5 * (16777216::nat)"
  by (simp add: adjust_final_buffer_size_def curr_ngroups_def curr_nrows_in_def double_to_size_t_def env0_def STROMALIGN16_def gpa_big_def gpa0_def Let_def)

text \<open>
  C7, amended. The capacity first computed is \<open>2.5 \<sqdot> groups \<sqdot> salt + 200\<close>, computed in
  doubles and cut to an integer, which is \<open>(5 \<sqdot> groups \<sqdot> salt) div 2 + 200\<close> as long as
  \<open>5 \<sqdot> groups \<sqdot> salt + 400\<close> is below \<open>2^53\<close>; the footprint first computed is the header
  plus the row unit times that capacity (all in 64-bit arithmetic). With a chunk size below \<open>2^64 / 3\<close> and a header
  that fits into a chunk: if that footprint is below three chunks, the returned capacity
  is the largest number of rows whose footprint fits into one chunk (footprint below half
  a chunk), two chunks (below one chunk) or three chunks (below three chunks); a
  footprint of three chunks or more keeps the capacity first computed and is not
  rounded. The returned hash size is twice the returned capacity.
\<close>

theorem final_buffer_footprint:
  assumes res: "adjust_final_buffer_size env gpa = Inr (salt, nrooms, extra, hashsize)"
    and chunk3: "3 * unat (pgstrom_chunk_size env) < 2 ^ 64"
    and head_le: "KDS_CALCULATE_HEAD_LENGTH env (f_ncols gpa) \<le> pgstrom_chunk_size env"
  shows "let head_w = KDS_CALCULATE_HEAD_LENGTH env (f_ncols gpa);
             unit_w = STROMALIGN env (9 * ucast (f_ncols gpa)) + STROMALIGN env extra;
             naive_w = double_to_size_t
                     (rd (rd (rd (real (unat (curr_ngroups env gpa * salt))) * 2.5) + 200));
             len = unat (head_w + unit_w * naive_w);
             chunk = unat (pgstrom_chunk_size env);
             units = (if len < chunk div 2 then 1 else if len < chunk then 2
                      else if len < 3 * chunk then 3 else (0::nat))
         in hashsize = 2 * nrooms
            \<and> (5 * unat (curr_ngroups env gpa * salt) + 400 < 2 ^ 53 \<longrightarrow>
                  unat naive_w = (5 * unat (curr_ngroups env gpa * salt)) div 2 + 200)
            \<and> (units = 0 \<longrightarrow> nrooms = naive_w)
            \<and> (0 < units \<longrightarrow>
                  unat head_w + unat unit_w * unat nrooms \<le> units * chunk
                  \<and> units * chunk < unat head_w + unat unit_w * (unat nrooms + 1))"
proof -
  define head_w where "head_w = KDS_CALCULATE_HEAD_LENGTH env (f_ncols gpa)"
  define unit_w where "unit_w = STROMALIGN env (9 * ucast (f_ncols gpa)) + STROMALIGN env extra"
  define naive_w where
    "naive_w = double_to_size_t
                     (rd (rd (rd (real (unat (curr_ngroups env gpa * salt))) * 2.5) + 200))"
  define len_w where "len_w = head_w + unit_w * naive_w"
  define chunk_w where "chunk_w = pgstrom_chunk_size env"
  note D = adjust_final_buffer_size_Inr_D[OF res]
  note hash = D(4)
  have nrooms: "nrooms = (if len_w < chunk_w div 2 then (chunk_w - head_w) div unit_w
                          else if len_w < chunk_w then (2 * chunk_w - head_w) div unit_w
                          else if len_w < 3 * chunk_w then (3 * chunk_w - head_w) div unit_w
                          else naive_w)"
    using D(3) unfolding Let_def head_w_def[symmetric] unit_w_def[symmetric]
      naive_w_def[symmetric] len_w_def[symmetric] chunk_w_def[symmetric] .
  have nz: "(len_w < chunk_w div 2 \<or> len_w < chunk_w \<or> len_w < 3 * chunk_w) \<longrightarrow> unit_w \<noteq> 0"
    using D(5) unfolding Let_def head_w_def[symmetric] unit_w_def[symmetric]
      naive_w_def[symmetric] len_w_def[symmetric] chunk_w_def[symmetric] .
  have c3: "unat (3 * chunk_w) = 3 * unat chunk_w"
    using chunk3 by (simp add: unat_word_ariths chunk_w_def)
  have cmp: "len_w < chunk_w div 2 \<longleftrightarrow> unat len_w < unat chunk_w div 2"
    "len_w < chunk_w \<longleftrightarrow> unat len_w < unat chunk_w"
    "len_w < 3 * chunk_w \<longleftrightarrow> unat len_w < 3 * unat chunk_w"
    by (simp_all add: word_less_nat_alt unat_div c3)
  note sub = unat_units_minus_head[OF chunk3 head_le, folded chunk_w_def head_w_def]
  have hl: "unat head_w \<le> unat chunk_w"
    using head_le by (simp add: word_le_nat_alt head_w_def chunk_w_def)
  have fit: "unat head_w + unat unit_w * unat nrooms \<le> k * unat chunk_w
             \<and> k * unat chunk_w < unat head_w + unat unit_w * (unat nrooms + 1)"
    if "nrooms = (w - head_w) div unit_w" "unat (w - head_w) = k * unat chunk_w - unat head_w"
       "unit_w \<noteq> 0" "0 < k" for w k
  proof -
    have u: "0 < unat unit_w" using that(3) by (simp add: unat_gt_0)
    have "unat chunk_w \<le> k * unat chunk_w"
      using that(4) by simp
    with hl have h: "unat head_w \<le> k * unat chunk_w" by (rule le_trans)
    have n: "unat nrooms = (k * unat chunk_w - unat head_w) div unat unit_w"
      by (simp add: that(1) unat_div that(2))
    show ?thesis
      unfolding n using fits_in_units[OF u h] by simp
  qed
  have naive: "5 * unat (curr_ngroups env gpa * salt) + 400 < 2 ^ 53 \<longrightarrow>
                  unat naive_w = (5 * unat (curr_ngroups env gpa * salt)) div 2 + 200"
    unfolding naive_w_def using unat_double_to_size_t_naive by blast
  consider (one) "unat len_w < unat chunk_w div 2"
    | (two) "\<not> unat len_w < unat chunk_w div 2" "unat len_w < unat chunk_w"
    | (three) "\<not> unat len_w < unat chunk_w div 2" "\<not> unat len_w < unat chunk_w"
        "unat len_w < 3 * unat chunk_w"
    | (none) "\<not> unat len_w < unat chunk_w div 2" "\<not> unat len_w < unat chunk_w"
        "\<not> unat len_w < 3 * unat chunk_w"
    by blast
  then have main: "let units = (if unat len_w < unat chunk_w div 2 then 1
                      else if unat len_w < unat chunk_w then 2
                      else if unat len_w < 3 * unat chunk_w then 3 else (0::nat))
         in (units = 0 \<longrightarrow> nrooms = naive_w)
            \<and> (0 < units \<longrightarrow>
                  unat head_w + unat unit_w * unat nrooms \<le> units * unat chunk_w
                  \<and> units * unat chunk_w < unat head_w + unat unit_w * (unat nrooms + 1))"
  proof cases
    case one
    with nrooms nz cmp have "nrooms = (chunk_w - head_w) div unit_w" "unit_w \<noteq> 0" by simp_all
    from fit[OF this(1) _ this(2), of 1] sub(1) one show ?thesis by simp
  next
    case two
    with nrooms nz cmp have "nrooms = (2 * chunk_w - head_w) div unit_w" "unit_w \<noteq> 0"
      by simp_all
    from fit[OF this(1) _ this(2), of 2] sub(2) two show ?thesis by simp
  next
    case three
    with nrooms nz cmp have "nrooms = (3 * chunk_w - head_w) div unit_w" "unit_w \<noteq> 0"
      by simp_all
    from fit[OF this(1) _ this(2), of 3] sub(3) three show ?thesis by simp
  next
    case none
    with nrooms cmp show ?thesis by simp
  qed
  show ?thesis
    unfolding Let_def head_w_def[symmetric] unit_w_def[symmetric] naive_w_def[symmetric]
      len_w_def[symmetric] chunk_w_def[symmetric]
    using hash naive main[unfolded Let_def] by blast
qed

theorem final_buffer_footprint_witness:
  "adjust_final_buffer_size env0 gpa0 = Inr (1, 524285, 0, 1048570)
   \<and> 3 * unat (pgstrom_chunk_size env0) < 2 ^ 64
   \<and> KDS_CALCULATE_HEAD_LENGTH env0 (f_ncols gpa0) \<le> pgstrom_chunk_size env0
   \<and> 96 + 32 * unat (524285 :: size_t) \<le> 1 * 16777216
   \<and> 1 * 16777216 < 96 + 32 * (unat (524285 :: size_t) + 1)"
proof -
  have r: "adjust_final_buffer_size env0 gpa0 = Inr (1, 524285, 0, 1048570)"
    by (simp add: adjust_final_buffer_size_def curr_ngroups_def double_to_size_t_def env0_def STROMALIGN16_def gpa0_def Let_def)
  have c: "3 * unat (pgstrom_chunk_size env0) < 2 ^ 64"
    and h: "KDS_CALCULATE_HEAD_LENGTH env0 (f_ncols gpa0) \<le> pgstrom_chunk_size env0"
    by (simp_all add: env0_def STROMALIGN16_def gpa0_def)
  from final_buffer_footprint[OF r c h]
  have "96 + 32 * unat (524285 :: size_t) \<le> 1 * 16777216
        \<and> 1 * 16777216 < 96 + 32 * (unat (524285 :: size_t) + 1)"
    by (simp add: Let_def env0_def STROMALIGN16_def gpa0_def curr_ngroups_def
          double_to_size_t_def)
  with r c h show ?thesis by blast
qed

subsection \<open>How long a reduction mode lasts\<close>

lemma get_final_buffer_keeps_decided_mode:
  assumes "kern_reduction_mode g \<noteq> GPUPREAGG_INVALID_REDUCTION"
    and "gpupreagg_get_final_buffer c env st g rc = Inr (st', g', ok)"
  shows "kern_reduction_mode g' = kern_reduction_mode g"
  using get_final_buffer_mode[OF assms(2)] assms(1) by simp

lemma put_final_buffer_mode:
  assumes "gpupreagg_put_final_buffer c st g rel force = Inr (st', g', t)"
  shows "kern_reduction_mode g' = kern_reduction_mode g"
    and "task_kerror_errcode g' = task_kerror_errcode g"
    and "kern_final_reduction_in_progress g' = kern_final_reduction_in_progress g"
proof -
  from put_final_buffer_Inr_D[OF assms] obtain a where
    a: "gpreagg_pds_final g = Some a" "a < length (pds_heap st)"
    and c: "c \<longrightarrow> 0 < ntasks_in_progress (sstate st) \<and> 0 < ntasks_running (pds_heap st ! a)"
    by blast
  note eq = assms[unfolded put_final_buffer_Some[OF a c] Let_def]
  from eq show "kern_reduction_mode g' = kern_reduction_mode g"
    by (auto simp: detach_pds_final_def split: if_splits)
  from eq show "task_kerror_errcode g' = task_kerror_errcode g"
    by (auto simp: detach_pds_final_def split: if_splits)
  from eq show "kern_final_reduction_in_progress g' = kern_final_reduction_in_progress g"
    by (auto simp: detach_pds_final_def split: if_splits)
qed

lemma push_terminator_mode:
  "kern_reduction_mode (snd (gpupreagg_push_terminator_task st g)) = kern_reduction_mode g"
  by (simp add: gpupreagg_push_terminator_task_def Let_def)

lemma complete_task_mode:
  assumes "gpupreagg_complete_task c st g = Inr (st', g', rv)"
  shows "kern_reduction_mode g' =
     (if kern_reduction_mode g \<noteq> GPUPREAGG_ONLY_TERMINATION
         \<and> task_kerror_errcode g = StromError_Success \<and> rv = 1
      then GPUPREAGG_ONLY_TERMINATION
      else if kern_reduction_mode g \<noteq> GPUPREAGG_ONLY_TERMINATION
              \<and> kern_reduction_mode g \<noteq> GPUPREAGG_NOGROUP_REDUCTION
              \<and> task_kerror_errcode g = StromError_DataStoreNoSpace
              \<and> \<not> kern_final_reduction_in_progress g
      then GPUPREAGG_INVALID_REDUCTION
      else kern_reduction_mode g)"
proof (cases "kern_reduction_mode g = GPUPREAGG_ONLY_TERMINATION")
  case True
  with assms show ?thesis
    by (auto simp: gpupreagg_complete_task_def Let_def gpupreagg_cleanup_cuda_resources_def
             split: if_splits option.splits)
next
  case nt: False
  let ?g0 = "gpupreagg_cleanup_cuda_resources g"
  have g0: "kern_reduction_mode ?g0 = kern_reduction_mode g"
    by (simp add: gpupreagg_cleanup_cuda_resources_def)
  consider (succ) "task_kerror_errcode g = StromError_Success"
    | (recheck) "task_kerror_errcode g = StromError_CpuReCheck"
    | (nospace_f) "task_kerror_errcode g = StromError_DataStoreNoSpace"
        "kern_final_reduction_in_progress g"
    | (nospace) "task_kerror_errcode g = StromError_DataStoreNoSpace"
        "\<not> kern_final_reduction_in_progress g"
    | (other) n where "task_kerror_errcode g = StromError_Other n"
    by (cases "task_kerror_errcode g") auto
  then show ?thesis
  proof cases
    case succ
    with nt assms show ?thesis
      by (auto simp: gpupreagg_complete_task_def g0 split: sum.splits if_splits
               dest!: put_final_buffer_mode(1))
  next
    case recheck
    with nt assms show ?thesis
      by (auto simp: gpupreagg_complete_task_def Let_def g0 gpupreagg_push_terminator_task_def
               split: sum.splits if_splits dest!: put_final_buffer_mode(1))
  next
    case nospace_f
    with nt assms show ?thesis
      by (auto simp: gpupreagg_complete_task_def Let_def g0 gpupreagg_push_terminator_task_def
               split: sum.splits if_splits dest!: put_final_buffer_mode(1))
  next
    case nospace
    with nt assms show ?thesis
      by (auto simp: gpupreagg_complete_task_def Let_def g0 gpupreagg_push_terminator_task_def
               split: sum.splits if_splits dest!: put_final_buffer_mode(1))
  next
    case other
    with nt assms show ?thesis
      by (auto simp: gpupreagg_complete_task_def Let_def g0
               split: sum.splits if_splits dest!: put_final_buffer_mode(1))
  qed
qed

text \<open>
  Against C8 as stated (the mode of a task is evaluated at most once and then frozen):
  in the run \<open>mode_reset_run\<close> the task is first decided Local (100 planned groups, no
  statistics yet), is reset to undecided when it completes with
  \<^verbatim>\<open>StromError_DataStoreNoSpace\<close>, and is decided Final at its second launch, because by
  then 5000 groups have been seen and 30 tasks launched.
\<close>

theorem reduction_mode_not_frozen:
  "mode_reset_run True env0 (s0\<lparr>sstate := gpa0\<lparr>plan_ngroups := 100\<rparr>\<rparr>)
      (\<lambda>gpa. gpa\<lparr>ntasks_in_progress := ntasks_in_progress gpa + 30,
                  n_tasks_final := 30, exec_nrows_in := 60000, exec_ngroups := 5000\<rparr>)
   = Inr ([GPUPREAGG_INVALID_REDUCTION, GPUPREAGG_LOCAL_REDUCTION,
           GPUPREAGG_INVALID_REDUCTION, GPUPREAGG_FINAL_REDUCTION], [0, 1, 0])"
  by (simp add: mode_reset_run_def and_then_def gpupreagg_next_task_def gpupreagg_create_task_def
      gpupreagg_process_reduction_task_def gpupreagg_get_final_buffer_def
      gpupreagg_alloc_final_buffer_def adjust_final_buffer_size_def curr_ngroups_def
      decide_reduction_mode_def double_to_size_t_def gpupreagg_put_final_buffer_def
      gpupreagg_push_terminator_task_def gpupreagg_complete_task_def
      gpupreagg_respond_task_def gpupreagg_cleanup_cuda_resources_def detach_pds_final_def
      Let_def s0_def gpa0_def env0_def STROMALIGN16_def)

text \<open>
  C8, amended. \<^verbatim>\<open>gpupreagg_get_final_buffer\<close> never changes a mode that is decided. A task
  is constructed NoGroup if the query has no grouping keys, and undecided otherwise.
  \<^verbatim>\<open>gpupreagg_complete_task\<close> changes the mode in two cases only: a task that succeeds and
  is to run again as the terminator (return value 1) becomes TerminationOnly, and a task
  other than NoGroup that completes with \<^verbatim>\<open>StromError_DataStoreNoSpace\<close> before its final
  reduction has begun becomes undecided again, so that the next attach decides anew.
  Hence a NoGroup task never gets another reduction strategy.
\<close>

theorem reduction_mode_changes:
  "(kern_reduction_mode g \<noteq> GPUPREAGG_INVALID_REDUCTION
      \<longrightarrow> gpupreagg_get_final_buffer c env st g rc = Inr (st', g', ok)
      \<longrightarrow> kern_reduction_mode g' = kern_reduction_mode g)
   \<and> kern_reduction_mode (gpupreagg_create_task num_group_keys block nrows_per_block nitems)
       = (if num_group_keys = 0 then GPUPREAGG_NOGROUP_REDUCTION
          else GPUPREAGG_INVALID_REDUCTION)
   \<and> (gpupreagg_complete_task c2 st2 g2 = Inr (st2', g2', rv)
      \<longrightarrow> kern_reduction_mode g2' =
           (if kern_reduction_mode g2 \<noteq> GPUPREAGG_ONLY_TERMINATION
               \<and> task_kerror_errcode g2 = StromError_Success \<and> rv = 1
            then GPUPREAGG_ONLY_TERMINATION
            else if kern_reduction_mode g2 \<noteq> GPUPREAGG_ONLY_TERMINATION
                    \<and> kern_reduction_mode g2 \<noteq> GPUPREAGG_NOGROUP_REDUCTION
                    \<and> task_kerror_errcode g2 = StromError_DataStoreNoSpace
                    \<and> \<not> kern_final_reduction_in_progress g2
            then GPUPREAGG_INVALID_REDUCTION
            else kern_reduction_mode g2))"
  using get_final_buffer_keeps_decided_mode[of g c env st rc st' g' ok]
        complete_task_mode[of c2 st2 g2 st2' g2' rv]
  by (simp add: gpupreagg_create_task_def Let_def)

theorem reduction_mode_changes_witness:
  "kern_reduction_mode t_one \<noteq> GPUPREAGG_INVALID_REDUCTION
   \<and> (case gpupreagg_get_final_buffer False env0 s_busy t_one CUDA_SUCCESS of
        Inl f \<Rightarrow> False
      | Inr (st', g', ok) \<Rightarrow> kern_reduction_mode g' = GPUPREAGG_FINAL_REDUCTION)
   \<and> (case gpupreagg_complete_task True s_one t_nospace of
        Inl f \<Rightarrow> False
      | Inr (st'', g'', rv) \<Rightarrow> kern_reduction_mode g'' = GPUPREAGG_FINAL_REDUCTION)"
proof -
  have m: "kern_reduction_mode t_one \<noteq> GPUPREAGG_INVALID_REDUCTION"
       "kern_reduction_mode t_one = GPUPREAGG_FINAL_REDUCTION"
    by (simp_all add: t_nospace_def s_one_def t_one_def gpa0_def gpupreagg_create_task_def)
  have "\<exists>st' g' ok. gpupreagg_get_final_buffer False env0 s_busy t_one CUDA_SUCCESS
                      = Inr (st', g', ok)"
    by (auto simp: gpupreagg_get_final_buffer_def decide_reduction_mode_def Let_def s_busy_def s_one_def t_one_def gpa0_def gpupreagg_create_task_def env0_def)
  then obtain st' g' ok where
    h1: "gpupreagg_get_final_buffer False env0 s_busy t_one CUDA_SUCCESS = Inr (st', g', ok)"
    by blast
  have "\<exists>st'' g'' rv. gpupreagg_complete_task True s_one t_nospace = Inr (st'', g'', rv)"
    by (simp add: gpupreagg_complete_task_def gpupreagg_put_final_buffer_def
      gpupreagg_push_terminator_task_def gpupreagg_cleanup_cuda_resources_def
      detach_pds_final_def Let_def t_nospace_def s_one_def t_one_def gpa0_def gpupreagg_create_task_def)
  then obtain st'' g'' rv where
    h2: "gpupreagg_complete_task True s_one t_nospace = Inr (st'', g'', rv)"
    by blast
  have n: "kern_reduction_mode t_nospace = GPUPREAGG_FINAL_REDUCTION"
     "task_kerror_errcode t_nospace = StromError_DataStoreNoSpace"
     "kern_final_reduction_in_progress t_nospace"
    by (simp_all add: t_nospace_def s_one_def t_one_def gpa0_def gpupreagg_create_task_def)
  from reduction_mode_changes[where g = t_one and c = False and env = env0 and st = s_busy
         and rc = CUDA_SUCCESS and st' = st' and g' = g' and ok = ok
         and ?c2.0 = True and ?st2.0 = s_one and ?g2.0 = t_nospace
         and st2' = st'' and g2' = g'' and rv = rv] m h1 h2 n
  have "kern_reduction_mode g' = GPUPREAGG_FINAL_REDUCTION"
       "kern_reduction_mode g'' = GPUPREAGG_FINAL_REDUCTION"
    by simp_all
  with m h1 h2 show ?thesis by simp
qed

subsection \<open>The shares printed by EXPLAIN\<close>







subsection \<open>The salt and a zero estimate\<close>

lemma unat_ucast_32_64: "unat (ucast (w :: cl_uint) :: size_t) = unat w"
proof -
  have "unat w < 2 ^ 32" using unsigned_less[of w] by simp
  then have "unat w < 2 ^ 64" by (rule less_le_trans) simp
  then show ?thesis
    by (simp add: unsigned_ucast_eq take_bit_nat_eq_self)
qed

lemma small_ngroups:
  fixes x :: size_t and d :: cl_uint
  assumes "x < ucast (d div 5)"
  shows "5 * unat x < 2 ^ 32" "unat (5 * x) = 5 * unat x"
proof -
  have "unat x < unat d div 5"
    using assms by (simp add: word_less_nat_alt unat_ucast_32_64 unat_div)
  moreover have "unat d < 2 ^ 32"
    using unsigned_less[of d] by simp
  ultimately show 1: "5 * unat x < 2 ^ 32" by linarith
  then show "unat (5 * x) = 5 * unat x"
    by (simp add: unat_word_ariths)
qed

lemma unat_max_1: "unat (max (a :: size_t) 1) = max (unat a) 1"
  by (simp add: max_def word_le_nat_alt)

text \<open>
  C10. Whenever the number of groups to provide for is below
  \<^verbatim>\<open>devBaselineMaxThreadsPerBlock / 5\<close>, \<^verbatim>\<open>adjust_final_buffer_size\<close> divides
  \<^verbatim>\<open>devBaselineMaxThreadsPerBlock\<close> by five times that number without looking at it first:
  the function stops with a division by zero there exactly when the number is zero. When
  the number is at least one and the size of a row is not zero (the only other division of
  the function), the function returns, and the salt it returns is
  \<^verbatim>\<open>Max(devBaselineMaxThreadsPerBlock / (5 * curr_ngroups), 1)\<close>. With fewer than 1000 rows
  seen, the number is the planner's \<^verbatim>\<open>plan_ngroups\<close>.
\<close>

theorem key_dist_salt_division:
  assumes small: "curr_ngroups env gpa < ucast (devBaselineMaxThreadsPerBlock env div 5)"
  shows "(adjust_final_buffer_size env gpa
            = Inl (DivisionByZero ''devBaselineMaxThreadsPerBlock / (5 * curr_ngroups)'')
          \<longleftrightarrow> curr_ngroups env gpa = 0)
       \<and> (let extra = (if exec_ngroups gpa < 100 then plan_extra_sz gpa
                       else max ((exec_extra_sz gpa + exec_ngroups gpa - 1)
                                  div exec_ngroups gpa) (plan_extra_sz gpa));
               unit_sz = STROMALIGN env (9 * ucast (f_ncols gpa)) + STROMALIGN env extra;
               salt = max (ucast (devBaselineMaxThreadsPerBlock env)
                           div (5 * curr_ngroups env gpa)) 1
           in unat salt = max (unat (devBaselineMaxThreadsPerBlock env)
                               div (5 * unat (curr_ngroups env gpa))) 1
              \<and> (curr_ngroups env gpa \<noteq> 0 \<and> unit_sz \<noteq> 0 \<longrightarrow>
                   (\<exists>nrooms. adjust_final_buffer_size env gpa
                               = Inr (salt, nrooms, extra, 2 * nrooms)))
              \<and> (\<forall>salt' nrooms extra' hashsize.
                   adjust_final_buffer_size env gpa = Inr (salt', nrooms, extra', hashsize)
                   \<longrightarrow> salt' = salt))
       \<and> (exec_nrows_in gpa < 1000 \<longrightarrow> curr_ngroups env gpa = plan_ngroups gpa)"
proof -
  note s = small_ngroups[OF small]
  define extra0 where
    "extra0 = (if exec_ngroups gpa < 100 then plan_extra_sz gpa
               else max ((exec_extra_sz gpa + exec_ngroups gpa - 1) div exec_ngroups gpa)
                        (plan_extra_sz gpa))"
  define salt0 where
    "salt0 = (if curr_ngroups env gpa < ucast (devBaselineMaxThreadsPerBlock env div 5)
              then max (ucast (devBaselineMaxThreadsPerBlock env)
                        div (5 * curr_ngroups env gpa)) 1
              else 1)"
  define c1 where
    "c1 \<longleftrightarrow> curr_ngroups env gpa < ucast (devBaselineMaxThreadsPerBlock env div 5)
            \<and> 5 * curr_ngroups env gpa = 0"
  define head0 where "head0 = KDS_CALCULATE_HEAD_LENGTH env (f_ncols gpa)"
  define unit0 where
    "unit0 = STROMALIGN env ((8 + 1) * ucast (f_ncols gpa)) + STROMALIGN env extra0"
  define naive0 where
    "naive0 = double_to_size_t
                (rd (rd (rd (real (unat (curr_ngroups env gpa * salt0))) * 2.5) + 200))"
  define len0 where "len0 = head0 + unit0 * naive0"
  define chunk0 where "chunk0 = pgstrom_chunk_size env"
  define c2 where
    "c2 \<longleftrightarrow> (len0 < chunk0 div 2 \<or> len0 < chunk0 \<or> len0 < 3 * chunk0) \<and> unit0 = 0"
  define nrooms0 where
    "nrooms0 = (if len0 < chunk0 div 2 then (chunk0 - head0) div unit0
                else if len0 < chunk0 then (2 * chunk0 - head0) div unit0
                else if len0 < 3 * chunk0 then (3 * chunk0 - head0) div unit0
                else naive0)"
  have flat: "adjust_final_buffer_size env gpa =
     (if c1 then Inl (DivisionByZero ''devBaselineMaxThreadsPerBlock / (5 * curr_ngroups)'')
      else if c2 then Inl (DivisionByZero ''(n * pgstrom_chunk_size() - head_sz) / unit_sz'')
      else Inr (salt0, nrooms0, extra0, 2 * nrooms0))"
    unfolding adjust_final_buffer_size_def Let_def extra0_def[symmetric] salt0_def[symmetric]
      c1_def[symmetric] head0_def[symmetric] unit0_def[symmetric] naive0_def[symmetric]
      len0_def[symmetric] chunk0_def[symmetric] c2_def[symmetric] nrooms0_def[symmetric]
    by (rule refl)
  have z: "5 * curr_ngroups env gpa = 0 \<longleftrightarrow> curr_ngroups env gpa = 0"
    using s(2) by (metis mult_eq_0_iff unat_eq_0 zero_neq_numeral)
  have c1_iff: "c1 \<longleftrightarrow> curr_ngroups env gpa = 0"
    using small z by (simp add: c1_def)
  have salt0: "max (ucast (devBaselineMaxThreadsPerBlock env)
                        div (5 * curr_ngroups env gpa)) 1 = salt0"
    using small by (simp add: salt0_def)
  have u9: "STROMALIGN env (9 * ucast (f_ncols gpa)) + STROMALIGN env extra0 = unit0"
    by (simp add: unit0_def)
  have 1: "adjust_final_buffer_size env gpa
            = Inl (DivisionByZero ''devBaselineMaxThreadsPerBlock / (5 * curr_ngroups)'')
          \<longleftrightarrow> curr_ngroups env gpa = 0"
    unfolding flat by (simp add: c1_iff)
  have 2: "unat salt0 = max (unat (devBaselineMaxThreadsPerBlock env)
                               div (5 * unat (curr_ngroups env gpa))) 1"
    unfolding salt0[symmetric] using s(2)
    by (simp add: unat_max_1 unat_div unat_ucast_32_64)
  have 3: "curr_ngroups env gpa \<noteq> 0 \<and> unit0 \<noteq> 0 \<longrightarrow>
             (\<exists>n. adjust_final_buffer_size env gpa = Inr (salt0, n, extra0, 2 * n))"
    unfolding flat by (simp add: c1_iff c2_def)
  have 4: "\<forall>salt' n extra' hashsize.
             adjust_final_buffer_size env gpa = Inr (salt', n, extra', hashsize)
             \<longrightarrow> salt' = salt0"
    unfolding flat by (simp split: if_splits)
  have 5: "exec_nrows_in gpa < 1000 \<longrightarrow> curr_ngroups env gpa = plan_ngroups gpa"
    by (simp add: curr_ngroups_def)
  from 1 2 3 4 5 show ?thesis
    unfolding Let_def extra0_def[symmetric] u9 salt0
    by blast
qed

theorem key_dist_salt_division_witness:
  "curr_ngroups env0 (gpa0\<lparr>plan_ngroups := 0\<rparr>)
     < ucast (devBaselineMaxThreadsPerBlock env0 div 5)
   \<and> exec_nrows_in (gpa0\<lparr>plan_ngroups := 0\<rparr>) < 1000
   \<and> adjust_final_buffer_size env0 (gpa0\<lparr>plan_ngroups := 0\<rparr>)
       = Inl (DivisionByZero ''devBaselineMaxThreadsPerBlock / (5 * curr_ngroups)'')
   \<and> curr_ngroups env0 (gpa0\<lparr>plan_ngroups := 10\<rparr>)
       < ucast (devBaselineMaxThreadsPerBlock env0 div 5)
   \<and> curr_ngroups env0 (gpa0\<lparr>plan_ngroups := 10\<rparr>) \<noteq> 0
   \<and> (\<exists>nrooms. adjust_final_buffer_size env0 (gpa0\<lparr>plan_ngroups := 10\<rparr>)
                  = Inr (20, nrooms, 0, 2 * nrooms))
   \<and> adjust_final_buffer_size env0 (gpa0\<lparr>plan_ngroups := 10\<rparr>)
       = Inr (20, 524285, 0, 1048570)"
proof -
  have h0: "curr_ngroups env0 (gpa0\<lparr>plan_ngroups := 0\<rparr>)
              < ucast (devBaselineMaxThreadsPerBlock env0 div 5)"
    and e0: "exec_nrows_in (gpa0\<lparr>plan_ngroups := 0\<rparr>) < 1000"
    and h1: "curr_ngroups env0 (gpa0\<lparr>plan_ngroups := 10\<rparr>)
              < ucast (devBaselineMaxThreadsPerBlock env0 div 5)"
    and g1: "curr_ngroups env0 (gpa0\<lparr>plan_ngroups := 10\<rparr>) = 10"
    by (simp_all add: curr_ngroups_def env0_def gpa0_def)
  from key_dist_salt_division[OF h0] e0
  have a: "adjust_final_buffer_size env0 (gpa0\<lparr>plan_ngroups := 0\<rparr>)
       = Inl (DivisionByZero ''devBaselineMaxThreadsPerBlock / (5 * curr_ngroups)'')"
    by simp
  from key_dist_salt_division[OF h1]
  have b: "\<exists>nrooms. adjust_final_buffer_size env0 (gpa0\<lparr>plan_ngroups := 10\<rparr>)
                  = Inr (20, nrooms, 0, 2 * nrooms)"
    unfolding g1 by (simp add: Let_def env0_def gpa0_def STROMALIGN16_def)
  have c: "adjust_final_buffer_size env0 (gpa0\<lparr>plan_ngroups := 10\<rparr>)
       = Inr (20, 524285, 0, 1048570)"
    by (simp add: adjust_final_buffer_size_def curr_ngroups_def curr_nrows_in_def
          double_to_size_t_def env0_def STROMALIGN16_def gpa0_def Let_def)
  from h0 e0 a h1 g1 b c show ?thesis by simp
qed

end
